theory Spec2Isabelle
  imports Complex_Main
begin

section \<open>Python values\<close>

text \<open>
  The pricing engine of \<^verbatim>\<open>src/pricing_engine.py\<close> and the two tools that wrap it work
  on what \<^verbatim>\<open>json.loads\<close> yields: \<^verbatim>\<open>None\<close>, booleans, integers, floats,
  strings, lists and dictionaries. A dictionary is an association list read with
  \<open>map_of\<close>. Python's \<^verbatim>\<open>float\<close> is idealised as an exact rational: no binary rounding,
  no overflow, no \<^verbatim>\<open>inf\<close> or \<^verbatim>\<open>nan\<close>. Strings are byte lists.
\<close>

datatype json =
    JNull
  | JBool bool
  | JInt int
  | JFloat rat
  | JStr string
  | JArr "json list"
  | JObj "(string \<times> json) list"

type_synonym pydict = "(string \<times> json) list"

datatype pyerr = TypeError | ValueError | AttributeError | ZeroDivisionError

text \<open>
  The parts of the Python runtime the sources call and that are not code of this
  repository: parsing a string as a number, printing a float, a list or a dictionary,
  printing an exception, ordering two lists, and the \<^verbatim>\<open>json\<close> module (\<open>json_loads\<close>
  gives the parsed value, or the text of the decoding error). They are parameters of
  the model. An exception is kept by its class, so \<open>str_of_exc\<close> prints every exception
  of a class alike. \<^verbatim>\<open>str.strip()\<close> is modelled on ASCII white space.
\<close>

record builtins =
  float_of_str :: "string \<Rightarrow> rat option"
  int_of_str :: "string \<Rightarrow> int option"
  repr_of :: "json \<Rightarrow> string"
  str_of_exc :: "pyerr \<Rightarrow> string"
  list_gt :: "json list \<Rightarrow> json list \<Rightarrow> pyerr + bool"
  json_loads :: "string \<Rightarrow> string + json"
  json_dumps :: "json \<Rightarrow> string"

definition dict_get :: "pydict \<Rightarrow> string \<Rightarrow> json \<Rightarrow> json" where
  \<comment> \<open>\<^verbatim>\<open>d.get(k, dflt)\<close>; \<^verbatim>\<open>d.get(k)\<close> is \<open>dict_get d k JNull\<close>\<close>
  "dict_get d k dflt = (case map_of d k of None \<Rightarrow> dflt | Some v \<Rightarrow> v)"

definition has_key :: "pydict \<Rightarrow> string \<Rightarrow> bool" where
  \<comment> \<open>\<^verbatim>\<open>k in d\<close>\<close>
  "has_key d k = (map_of d k \<noteq> None)"

fun py_truthy :: "json \<Rightarrow> bool" where
  "py_truthy JNull = False"
| "py_truthy (JBool b) = b"
| "py_truthy (JInt i) = (i \<noteq> 0)"
| "py_truthy (JFloat r) = (r \<noteq> 0)"
| "py_truthy (JStr s) = (s \<noteq> [])"
| "py_truthy (JArr l) = (l \<noteq> [])"
| "py_truthy (JObj d) = (d \<noteq> [])"

fun num_val :: "json \<Rightarrow> rat option" where
  \<comment> \<open>the value of a Python number; \<^verbatim>\<open>bool\<close> is a subtype of \<^verbatim>\<open>int\<close>\<close>
  "num_val (JBool b) = Some (if b then 1 else 0)"
| "num_val (JInt i) = Some (of_int i)"
| "num_val (JFloat r) = Some r"
| "num_val _ = None"

fun py_float :: "builtins \<Rightarrow> json \<Rightarrow> pyerr + rat" where
  \<comment> \<open>\<^verbatim>\<open>float(v)\<close>\<close>
  "py_float B (JBool b) = Inr (if b then 1 else 0)"
| "py_float B (JInt i) = Inr (of_int i)"
| "py_float B (JFloat r) = Inr r"
| "py_float B (JStr s) = (case float_of_str B s of None \<Rightarrow> Inl ValueError | Some r \<Rightarrow> Inr r)"
| "py_float B _ = Inl TypeError"

definition trunc :: "rat \<Rightarrow> int" where
  "trunc r = (if 0 \<le> r then \<lfloor>r\<rfloor> else \<lceil>r\<rceil>)"

fun py_int :: "builtins \<Rightarrow> json \<Rightarrow> pyerr + int" where
  \<comment> \<open>\<^verbatim>\<open>int(v)\<close>\<close>
  "py_int B (JBool b) = Inr (if b then 1 else 0)"
| "py_int B (JInt i) = Inr i"
| "py_int B (JFloat r) = Inr (trunc r)"
| "py_int B (JStr s) = (case int_of_str B s of None \<Rightarrow> Inl ValueError | Some i \<Rightarrow> Inr i)"
| "py_int B _ = Inl TypeError"

definition digit_char :: "nat \<Rightarrow> char" where
  "digit_char d = ''0123456789'' ! d"

fun str_nat :: "nat \<Rightarrow> string" where
  "str_nat n = (if n < 10 then [digit_char n] else str_nat (n div 10) @ [digit_char (n mod 10)])"

declare str_nat.simps [simp del]

definition str_int :: "int \<Rightarrow> string" where
  "str_int i = (if i < 0 then CHR ''-'' # str_nat (nat (- i)) else str_nat (nat i))"

fun py_str :: "builtins \<Rightarrow> json \<Rightarrow> string" where
  \<comment> \<open>\<^verbatim>\<open>str(v)\<close>, also what an f-string prints\<close>
  "py_str B JNull = ''None''"
| "py_str B (JBool b) = (if b then ''True'' else ''False'')"
| "py_str B (JInt i) = str_int i"
| "py_str B (JStr s) = s"
| "py_str B v = repr_of B v"

definition is_space :: "char \<Rightarrow> bool" where
  \<comment> \<open>the ASCII characters \<^verbatim>\<open>str.strip()\<close> removes\<close>
  "is_space c = (let n = (of_char c :: nat) in n = 32 \<or> (9 \<le> n \<and> n \<le> 13) \<or> (28 \<le> n \<and> n \<le> 31))"

definition strip :: "string \<Rightarrow> string" where
  "strip s = rev (dropWhile is_space (rev (dropWhile is_space s)))"

fun join :: "string \<Rightarrow> string list \<Rightarrow> string" where
  \<comment> \<open>\<^verbatim>\<open>sep.join(xs)\<close>\<close>
  "join sep [] = []"
| "join sep [x] = x"
| "join sep (x # y # ys) = x @ sep @ join sep (y # ys)"

fun starts_with :: "string \<Rightarrow> string \<Rightarrow> bool" where
  "starts_with [] s = True"
| "starts_with (c # cs) [] = False"
| "starts_with (c # cs) (d # ds) = (c = d \<and> starts_with cs ds)"

fun str_contains :: "string \<Rightarrow> string \<Rightarrow> bool" where
  \<comment> \<open>\<^verbatim>\<open>sub in s\<close> on two strings\<close>
  "str_contains sub [] = (sub = [])"
| "str_contains sub (d # ds) = (starts_with sub (d # ds) \<or> str_contains sub ds)"

fun str_gt :: "string \<Rightarrow> string \<Rightarrow> bool" where
  \<comment> \<open>\<^verbatim>\<open>s > t\<close> on two strings\<close>
  "str_gt [] t = False"
| "str_gt (c # cs) [] = True"
| "str_gt (c # cs) (d # ds) =
     ((of_char c :: nat) > of_char d \<or> (c = d \<and> str_gt cs ds))"

fun py_gt :: "builtins \<Rightarrow> json \<Rightarrow> json \<Rightarrow> pyerr + bool" where
  \<comment> \<open>\<^verbatim>\<open>a > b\<close>\<close>
  "py_gt B (JStr s) (JStr t) = Inr (str_gt s t)"
| "py_gt B (JArr k) (JArr l) = list_gt B k l"
| "py_gt B a b =
     (case (num_val a, num_val b) of
        (Some x, Some y) \<Rightarrow> Inr (x > y)
      | _ \<Rightarrow> Inl TypeError)"

fun py_mul2 :: "json \<Rightarrow> pyerr + json" where
  \<comment> \<open>\<^verbatim>\<open>2 * v\<close>\<close>
  "py_mul2 (JBool b) = Inr (JInt (2 * (if b then 1 else 0)))"
| "py_mul2 (JInt i) = Inr (JInt (2 * i))"
| "py_mul2 (JFloat r) = Inr (JFloat (2 * r))"
| "py_mul2 (JStr s) = Inr (JStr (s @ s))"
| "py_mul2 (JArr l) = Inr (JArr (l @ l))"
| "py_mul2 _ = Inl TypeError"

definition py_truediv :: "json \<Rightarrow> json \<Rightarrow> pyerr + rat" where
  \<comment> \<open>\<^verbatim>\<open>a / b\<close>\<close>
  "py_truediv a b =
     (case (num_val a, num_val b) of
        (Some x, Some y) \<Rightarrow> (if y = 0 then Inl ZeroDivisionError else Inr (x / y))
      | _ \<Rightarrow> Inl TypeError)"

definition round2 :: "rat \<Rightarrow> rat" where
  \<comment> \<open>\<^verbatim>\<open>round(x, 2)\<close> on a float: to the nearest hundredth, a tie to the even one\<close>
  "round2 x =
     (let y = x * 100; f = \<lfloor>y\<rfloor>; d = y - of_int f
      in of_int (if d < 1 / 2 then f else if 1 / 2 < d then f + 1
                 else if even f then f else f + 1) / 100)"

datatype pynum = PInt int | PFloat rat

text \<open>
  The numbers the engine computes with are Python \<^verbatim>\<open>int\<close>s (the literal \<^verbatim>\<open>0\<close>) and
  floats; \<^verbatim>\<open>int\<close> with \<^verbatim>\<open>int\<close> gives an \<^verbatim>\<open>int\<close>, anything else a float.
\<close>

fun pn_val :: "pynum \<Rightarrow> rat" where
  "pn_val (PInt i) = of_int i"
| "pn_val (PFloat r) = r"

fun pn_add :: "pynum \<Rightarrow> pynum \<Rightarrow> pynum" where
  "pn_add (PInt a) (PInt b) = PInt (a + b)"
| "pn_add a b = PFloat (pn_val a + pn_val b)"

fun pn_sub :: "pynum \<Rightarrow> pynum \<Rightarrow> pynum" where
  "pn_sub (PInt a) (PInt b) = PInt (a - b)"
| "pn_sub a b = PFloat (pn_val a - pn_val b)"

fun pn_round2 :: "pynum \<Rightarrow> json" where
  \<comment> \<open>\<^verbatim>\<open>round(v, 2)\<close>: an \<^verbatim>\<open>int\<close> stays the same \<^verbatim>\<open>int\<close>\<close>
  "pn_round2 (PInt i) = JInt i"
| "pn_round2 (PFloat r) = JFloat (round2 r)"

section \<open>The pricing rules engine\<close>

text \<open>
  \<^verbatim>\<open>PricingRulesEngine\<close> of \<^verbatim>\<open>src/pricing_engine.py\<close>. The object is a record of its
  attributes; a method takes the object and returns it updated, or the exception it
  raises. \<^verbatim>\<open>datetime.now().month\<close> is the argument \<open>month\<close>.
\<close>

record adjustment =
  adj_type :: string
  adj_value :: pynum
  adj_reason :: string

record engine =
  product :: pydict
  quantity :: int
  base_price :: rat
  adjustments :: "adjustment list"
  final_price :: rat

definition SEASONAL_SUMMER_CATEGORIES :: "string list" where
  "SEASONAL_SUMMER_CATEGORIES = [''Toys & Games'', ''Sports & Outdoors'', ''Fashion & Apparel'']"

definition init :: "builtins \<Rightarrow> pydict \<Rightarrow> int \<Rightarrow> pyerr + engine" where
  \<comment> \<open>\<^verbatim>\<open>PricingRulesEngine.__init__\<close>\<close>
  "init B p q =
     (case py_float B (dict_get p ''Min_Selling_Price_Rs'' (JInt 0)) of
        Inl err \<Rightarrow> Inl err
      | Inr b \<Rightarrow>
          Inr \<lparr>product = p, quantity = q, base_price = b, adjustments = [], final_price = b\<rparr>)"

definition append_adj :: "adjustment \<Rightarrow> engine \<Rightarrow> engine" where
  \<comment> \<open>\<^verbatim>\<open>self.adjustments.append(adj)\<close>\<close>
  "append_adj a e = e\<lparr>adjustments := adjustments e @ [a]\<rparr>"

definition factors_of :: "builtins \<Rightarrow> pydict \<Rightarrow> string list" where
  "factors_of B p =
     [strip (py_str B (dict_get p ''Factor_1'' (JStr []))),
      strip (py_str B (dict_get p ''Factor_2'' (JStr []))),
      strip (py_str B (dict_get p ''Factor_3'' (JStr [])))]"

definition seasonal_reason :: "builtins \<Rightarrow> json \<Rightarrow> string" where
  "seasonal_reason B c =
     ''In-Season Demand Markup: '' @ [CHR 0x27] @ py_str B c @ [CHR 0x27]
       @ '' is a popular summer category.''"

definition demographic_reason :: string where
  "demographic_reason =
     ''Targeted Product Premium: Price adjusted for specific demographic appeal.''"

definition override_reason :: string where
  "override_reason =
     ''Price Strategy Override: Item'' @ [CHR 0x27]
       @ ''s price is driven by perceived value, not inventory levels.''"

definition override_adj :: "adjustment \<Rightarrow> adjustment" where
  \<comment> \<open>the body of the loop of the value-based override\<close>
  "override_adj a =
     (if str_contains ''High Inventory Discount'' (adj_reason a)
      then a\<lparr>adj_value := PInt 0, adj_reason := override_reason\<rparr>
      else a)"

definition apply_factor_based_rules :: "builtins \<Rightarrow> nat \<Rightarrow> engine \<Rightarrow> engine" where
  \<comment> \<open>\<^verbatim>\<open>_apply_factor_based_rules\<close>\<close>
  "apply_factor_based_rules B month e =
     (let factors = factors_of B (product e);
          e1 = (if ''Weather & Seasons'' \<in> set factors then
                  (let product_category = dict_get (product e) ''Category'' (JStr []);
                       is_summer_season = (month \<in> set [5, 6, 7, 8])
                   in if is_summer_season
                         \<and> product_category \<in> set (map JStr SEASONAL_SUMMER_CATEGORIES)
                      then append_adj \<lparr>adj_type = ''markup'', adj_value = PFloat 10,
                             adj_reason = seasonal_reason B product_category\<rparr> e
                      else e)
                else e);
          e2 = (if ''Age'' \<in> set factors \<or> ''Gender'' \<in> set factors
                then append_adj \<lparr>adj_type = ''markup'', adj_value = PFloat 3,
                       adj_reason = demographic_reason\<rparr> e1
                else e1)
      in if ''Purchasing Power'' \<in> set factors
         then e2\<lparr>adjustments := map override_adj (adjustments e2)\<rparr>
         else e2)"

definition inventory_reason :: "builtins \<Rightarrow> json \<Rightarrow> string" where
  "inventory_reason B stock =
     ''High Inventory Discount: Stock level ('' @ py_str B stock
       @ '') is high compared to reorder point.''"

definition apply_inventory_rules :: "builtins \<Rightarrow> engine \<Rightarrow> pyerr + engine" where
  \<comment> \<open>\<^verbatim>\<open>_apply_inventory_rules\<close>\<close>
  "apply_inventory_rules B e =
     (let stock = dict_get (product e) ''Quantity_in_Stock'' (JInt 0);
          reorder_level = dict_get (product e) ''Reorder_Level'' (JInt 1)
      in if \<not> py_truthy reorder_level then Inr e
         else case py_mul2 reorder_level of
           Inl err \<Rightarrow> Inl err
         | Inr twice \<Rightarrow>
            (case py_gt B stock twice of
               Inl err \<Rightarrow> Inl err
             | Inr False \<Rightarrow> Inr e
             | Inr True \<Rightarrow>
                (case py_truediv stock twice of
                   Inl err \<Rightarrow> Inl err
                 | Inr ratio \<Rightarrow>
                    (let discount_factor = ratio * (5 / 100);
                         discount_percentage = min discount_factor (20 / 100) * 100
                     in Inr (append_adj \<lparr>adj_type = ''discount'',
                               adj_value = PFloat discount_percentage,
                               adj_reason = inventory_reason B stock\<rparr> e)))))"

definition bulk_reason :: "int \<Rightarrow> string" where
  "bulk_reason q = ''Bulk Order Discount: For ordering '' @ str_int q @ '' units (25+).''"

definition apply_order_value_rules :: "engine \<Rightarrow> engine" where
  \<comment> \<open>\<^verbatim>\<open>_apply_order_value_rules\<close>\<close>
  "apply_order_value_rules e =
     (if quantity e \<ge> 25
      then append_adj \<lparr>adj_type = ''discount'', adj_value = PFloat (75 / 10),
             adj_reason = bulk_reason (quantity e)\<rparr> e
      else e)"

definition required_keys :: "string list" where
  "required_keys = [''Product_Name'', ''Quantity_in_Stock'', ''Stock_Status'', ''Min_Selling_Price_Rs'']"

definition missing_keys :: "pydict \<Rightarrow> string list" where
  "missing_keys p = filter (\<lambda>key. \<not> has_key p key \<or> dict_get p key JNull = JNull) required_keys"

definition total_step :: "pynum \<Rightarrow> adjustment \<Rightarrow> pynum" where
  \<comment> \<open>the body of the loop that sums the adjustments\<close>
  "total_step t a =
     (if adj_type a = ''discount'' then pn_sub t (adj_value a)
      else if adj_type a = ''markup'' then pn_add t (adj_value a)
      else t)"

definition total_adjustment_percentage :: "adjustment list \<Rightarrow> pynum" where
  "total_adjustment_percentage adjs = foldl total_step (PInt 0) adjs"

definition final_single_unit_price :: "engine \<Rightarrow> rat" where
  "final_single_unit_price e =
     base_price e * (1 + pn_val (total_adjustment_percentage (adjustments e)) / 100)"

definition reasoning_breakdown :: "adjustment list \<Rightarrow> string list" where
  "reasoning_breakdown adjs = map adj_reason (filter (\<lambda>a. pn_val (adj_value a) \<noteq> 0) adjs)"

definition incomplete_result :: "pydict \<Rightarrow> pydict" where
  "incomplete_result p =
     [(''product_name'', dict_get p ''Product_Name'' (JStr ''Unknown'')),
      (''approved_for_quote'', JBool False),
      (''status'', JStr (''Product data incomplete. Missing required fields: ''
                         @ join '', '' (missing_keys p)))]"

definition rejected_result :: "engine \<Rightarrow> string \<Rightarrow> pydict" where
  "rejected_result e status_msg =
     [(''product_name'', dict_get (product e) ''Product_Name'' JNull),
      (''quantity_requested'', JInt (quantity e)),
      (''approved_for_quote'', JBool False),
      (''status'', JStr status_msg)]"

definition insufficient_msg :: "builtins \<Rightarrow> int \<Rightarrow> json \<Rightarrow> string" where
  "insufficient_msg B q stock_quantity =
     ''Insufficient stock. Requested: '' @ str_int q @ '', Available: ''
       @ py_str B stock_quantity @ ''.''"

definition approved_result :: "engine \<Rightarrow> pydict" where
  \<comment> \<open>steps 3 and 4 of \<^verbatim>\<open>calculate_price\<close>, on the object the rules have updated\<close>
  "approved_result e =
     (let total = total_adjustment_percentage (adjustments e);
          unit_price = final_single_unit_price e;
          total_price = unit_price * of_int (quantity e)
      in [(''product_name'', dict_get (product e) ''Product_Name'' JNull),
          (''quantity_requested'', JInt (quantity e)),
          (''approved_for_quote'', JBool True),
          (''base_single_unit_price'', JFloat (round2 (base_price e))),
          (''final_single_unit_price'', JFloat (round2 unit_price)),
          (''total_price'', JFloat (round2 total_price)),
          (''net_price_adjustment_percentage'', pn_round2 total),
          (''reasoning_breakdown'', JArr (map JStr (reasoning_breakdown (adjustments e)))),
          (''competitors'', JObj
             [(''SmartBuy'', dict_get (product e) ''SmartBuy'' JNull),
              (''ClicKart'', dict_get (product e) ''ClicKart'' JNull),
              (''ShopiSky'', dict_get (product e) ''ShopiSky'' JNull),
              (''Neesho'', dict_get (product e) ''Neesho'' JNull)]),
          (''status'', JStr ''Available'')])"

definition apply_rules :: "builtins \<Rightarrow> nat \<Rightarrow> engine \<Rightarrow> pyerr + engine" where
  \<comment> \<open>step 2 of \<^verbatim>\<open>calculate_price\<close>: the three rule methods in the order of the source\<close>
  "apply_rules B month e =
     (case apply_inventory_rules B e of
        Inl err \<Rightarrow> Inl err
      | Inr e1 \<Rightarrow> Inr (apply_factor_based_rules B month (apply_order_value_rules e1)))"

definition calculate_price :: "builtins \<Rightarrow> nat \<Rightarrow> engine \<Rightarrow> pyerr + (pydict \<times> engine)" where
  \<comment> \<open>\<^verbatim>\<open>calculate_price\<close>: the dictionary returned and the object as the call leaves it\<close>
  "calculate_price B month e =
     (if missing_keys (product e) \<noteq> [] then Inr (incomplete_result (product e), e)
      else
        let stock_status = dict_get (product e) ''Stock_Status'' JNull;
            stock_quantity = dict_get (product e) ''Quantity_in_Stock'' JNull
        in if stock_status = JStr ''Out of Stock''
           then Inr (rejected_result e ''Product is out of stock.'', e)
           else case py_gt B (JInt (quantity e)) stock_quantity of
             Inl err \<Rightarrow> Inl err
           | Inr True \<Rightarrow>
               Inr (rejected_result e (insufficient_msg B (quantity e) stock_quantity), e)
           | Inr False \<Rightarrow>
               (case apply_rules B month e of
                  Inl err \<Rightarrow> Inl err
                | Inr e' \<Rightarrow> Inr (approved_result e', e')))"

definition calculate :: "builtins \<Rightarrow> nat \<Rightarrow> pydict \<Rightarrow> int \<Rightarrow> pyerr + (pydict \<times> engine)" where
  \<comment> \<open>\<^verbatim>\<open>PricingRulesEngine(product, quantity).calculate_price()\<close>\<close>
  "calculate B month p q =
     (case init B p q of Inl err \<Rightarrow> Inl err | Inr e \<Rightarrow> calculate_price B month e)"

section \<open>The risk assessment tool\<close>

text \<open>\<^verbatim>\<open>RiskAssessmentTool._run\<close> of \<^verbatim>\<open>src/tools/risk_assessment_tool.py\<close>.\<close>

definition max_allowed_discount :: rat where
  "max_allowed_discount = 25"

fun py_abs :: "json \<Rightarrow> pyerr + json" where
  \<comment> \<open>\<^verbatim>\<open>abs(v)\<close>\<close>
  "py_abs (JBool b) = Inr (JInt (if b then 1 else 0))"
| "py_abs (JInt i) = Inr (JInt \<bar>i\<bar>)"
| "py_abs (JFloat r) = Inr (JFloat \<bar>r\<bar>)"
| "py_abs _ = Inl TypeError"

definition py_lt_float :: "json \<Rightarrow> rat \<Rightarrow> pyerr + bool" where
  \<comment> \<open>\<^verbatim>\<open>v < x\<close> for a float \<^verbatim>\<open>x\<close>\<close>
  "py_lt_float v x = (case num_val v of Some y \<Rightarrow> Inr (y < x) | None \<Rightarrow> Inl TypeError)"

fun py_iter :: "json \<Rightarrow> pyerr + json list" where
  \<comment> \<open>the elements a \<^verbatim>\<open>for\<close> loop over \<^verbatim>\<open>v\<close> visits\<close>
  "py_iter (JArr l) = Inr l"
| "py_iter (JStr s) = Inr (map (\<lambda>c. JStr [c]) s)"
| "py_iter (JObj d) = Inr (map JStr (remdups (map fst d)))"
| "py_iter _ = Inl TypeError"

fun capped_in :: "json \<Rightarrow> pyerr + bool" where
  \<comment> \<open>\<^verbatim>\<open>"Capped" in reason\<close>\<close>
  "capped_in (JStr s) = Inr (str_contains ''Capped'' s)"
| "capped_in (JArr l) = Inr (JStr ''Capped'' \<in> set l)"
| "capped_in (JObj d) = Inr (has_key d ''Capped'')"
| "capped_in _ = Inl TypeError"

definition discount_flag :: "builtins \<Rightarrow> pydict \<Rightarrow> json \<Rightarrow> string" where
  "discount_flag B d magnitude =
     ''Risk: Net discount for '' @ [CHR 0x27] @ py_str B (dict_get d ''product_name'' JNull)
       @ [CHR 0x27] @ '' is '' @ py_str B magnitude @ ''%, which exceeds the maximum of ''
       @ py_str B (JFloat max_allowed_discount) @ ''%.''"

definition capped_flag :: "builtins \<Rightarrow> pydict \<Rightarrow> string" where
  "capped_flag B d =
     ''Heads-up: A discount for '' @ [CHR 0x27] @ py_str B (dict_get d ''product_name'' JNull)
       @ [CHR 0x27] @ '' was automatically capped.''"

fun scan_reasons :: "builtins \<Rightarrow> pydict \<Rightarrow> json list \<Rightarrow> string list \<Rightarrow> pyerr + string list" where
  \<comment> \<open>the loop over \<^verbatim>\<open>reasons\<close>, appending to \<^verbatim>\<open>high_risk_flags\<close>\<close>
  "scan_reasons B d [] flags = Inr flags"
| "scan_reasons B d (reason # rest) flags =
     (case capped_in reason of
        Inl err \<Rightarrow> Inl err
      | Inr True \<Rightarrow> scan_reasons B d rest (flags @ [capped_flag B d])
      | Inr False \<Rightarrow> scan_reasons B d rest flags)"

definition high_risk_flags :: "builtins \<Rightarrow> pydict \<Rightarrow> pyerr + string list" where
  \<comment> \<open>the flags of an approved item, in the order the source appends them\<close>
  "high_risk_flags B d =
     (let adjustment = dict_get d ''net_price_adjustment_percentage'' (JInt 0);
          first = (if adjustment = JNull then Inr []
                   else case py_lt_float adjustment (- max_allowed_discount) of
                     Inl err \<Rightarrow> Inl err
                   | Inr False \<Rightarrow> Inr []
                   | Inr True \<Rightarrow>
                       (case py_abs adjustment of
                          Inl err \<Rightarrow> Inl err
                        | Inr magnitude \<Rightarrow> Inr [discount_flag B d magnitude]))
      in case first of
           Inl err \<Rightarrow> Inl err
         | Inr flags \<Rightarrow>
             (case py_iter (dict_get d ''reasoning_breakdown'' (JArr [])) of
                Inl err \<Rightarrow> Inl err
              | Inr reasons \<Rightarrow> scan_reasons B d reasons flags))"

definition not_quoted_summary :: "builtins \<Rightarrow> pydict \<Rightarrow> string" where
  "not_quoted_summary B d =
     ''Item '' @ [CHR 0x27] @ py_str B (dict_get d ''product_name'' (JStr ''Unknown''))
       @ [CHR 0x27] @ '' poses no pricing risk as it is not being quoted. Reason: ''
       @ py_str B (dict_get d ''status'' (JStr ''Item not available for quoting.''))"

definition passed_summary :: "builtins \<Rightarrow> pydict \<Rightarrow> string" where
  "passed_summary B d =
     ''Item '' @ [CHR 0x27] @ py_str B (dict_get d ''product_name'' JNull)
       @ [CHR 0x27] @ '' passed all checks.''"

definition assess :: "builtins \<Rightarrow> json \<Rightarrow> pyerr + json" where
  \<comment> \<open>\<^verbatim>\<open>_run\<close> after \<^verbatim>\<open>json.loads\<close>: the dictionary handed to \<^verbatim>\<open>json.dumps\<close>\<close>
  "assess B strategy_data =
     (case strategy_data of
        JObj d \<Rightarrow>
          (if \<not> py_truthy (dict_get d ''approved_for_quote'' (JBool False))
           then Inr (JObj [(''risk_level'', JStr ''Low''),
                           (''summary'', JStr (not_quoted_summary B d))])
           else case high_risk_flags B d of
             Inl err \<Rightarrow> Inl err
           | Inr flags \<Rightarrow>
               (if flags = []
                then Inr (JObj [(''risk_level'', JStr ''Low''),
                                (''summary'', JStr (passed_summary B d))])
                else Inr (JObj [(''risk_level'', JStr ''High''),
                                (''summary'', JStr ''High risk detected.''),
                                (''reasons'', JArr (map JStr flags))])))
      | _ \<Rightarrow> Inl AttributeError)"

definition risk_run :: "builtins \<Rightarrow> string \<Rightarrow> pyerr + string" where
  \<comment> \<open>\<^verbatim>\<open>RiskAssessmentTool._run\<close>\<close>
  "risk_run B item_pricing_json =
     (case json_loads B item_pricing_json of
        Inl details \<Rightarrow> Inr (''Error: Invalid JSON from input. Details: '' @ details @ ''.'')
      | Inr strategy_data \<Rightarrow>
          (case assess B strategy_data of
             Inl err \<Rightarrow> Inl err
           | Inr res \<Rightarrow> Inr (json_dumps B res)))"

section \<open>The pricing calculator tool\<close>

text \<open>\<^verbatim>\<open>PricingCalculatorTool._run\<close> of \<^verbatim>\<open>src/tools/price_calculating_tool.py\<close>.\<close>

definition skipped_entry :: json where
  "skipped_entry =
     JObj [(''error'', JStr (''Skipping item due to missing '' @ [CHR 0x27] @ ''product_json''
             @ [CHR 0x27] @ '' or '' @ [CHR 0x27] @ ''quantity'' @ [CHR 0x27] @ ''.''))]"

definition engine_call :: "builtins \<Rightarrow> nat \<Rightarrow> json \<Rightarrow> json \<Rightarrow> pyerr + json" where
  \<comment> \<open>the body of the \<^verbatim>\<open>try\<close>: \<^verbatim>\<open>int(quantity)\<close>, the constructor, \<^verbatim>\<open>calculate_price\<close>\<close>
  "engine_call B month product_data qty =
     (case py_int B qty of
        Inl err \<Rightarrow> Inl err
      | Inr q \<Rightarrow>
          (case product_data of
             JObj p \<Rightarrow>
               (case calculate B month p q of
                  Inl err \<Rightarrow> Inl err
                | Inr (pricing_result, e) \<Rightarrow> Inr (JObj pricing_result))
           | _ \<Rightarrow> Inl AttributeError))"

definition failed_entry :: "builtins \<Rightarrow> json \<Rightarrow> pyerr \<Rightarrow> pyerr + json" where
  \<comment> \<open>the \<^verbatim>\<open>except Exception\<close> handler; \<^verbatim>\<open>product_data.get\<close> raises on what is no dictionary\<close>
  "failed_entry B product_data exc =
     (case product_data of
        JObj p \<Rightarrow>
          Inr (JObj [(''error'', JStr (''Failed to process item ''
                 @ py_str B (dict_get p ''Product_Name'' (JStr ''Unknown''))
                 @ ''. Details: '' @ str_of_exc B exc))])
      | _ \<Rightarrow> Inl AttributeError)"

definition process_item :: "builtins \<Rightarrow> nat \<Rightarrow> json \<Rightarrow> pyerr + json" where
  \<comment> \<open>the body of the loop over \<^verbatim>\<open>line_items\<close>: what is appended to \<^verbatim>\<open>all_results\<close>,
      or the exception that leaves \<^verbatim>\<open>_run\<close>\<close>
  "process_item B month item =
     (case item of
        JObj d \<Rightarrow>
          (let product_data = dict_get d ''product_json'' JNull;
               qty = dict_get d ''quantity'' JNull
           in if \<not> py_truthy product_data \<or> qty = JNull then Inr skipped_entry
              else case engine_call B month product_data qty of
                Inr pricing_result \<Rightarrow> Inr pricing_result
              | Inl exc \<Rightarrow> failed_entry B product_data exc)
      | _ \<Rightarrow> Inl AttributeError)"

fun run_items :: "builtins \<Rightarrow> nat \<Rightarrow> json list \<Rightarrow> json list \<Rightarrow> pyerr + json list" where
  \<comment> \<open>the loop, \<open>all_results\<close> being the list so far\<close>
  "run_items B month [] all_results = Inr all_results"
| "run_items B month (item # items) all_results =
     (case process_item B month item of
        Inl err \<Rightarrow> Inl err
      | Inr r \<Rightarrow> run_items B month items (all_results @ [r]))"

definition pricing_run :: "builtins \<Rightarrow> nat \<Rightarrow> string \<Rightarrow> pyerr + string" where
  \<comment> \<open>\<^verbatim>\<open>PricingCalculatorTool._run\<close>\<close>
  "pricing_run B month line_items_json =
     (case json_loads B line_items_json of
        Inl details \<Rightarrow> Inr (''Error: Invalid JSON data provided. Details: '' @ details)
      | Inr line_items \<Rightarrow>
          (case line_items of
             JArr items \<Rightarrow>
               (case run_items B month items [] of
                  Inl err \<Rightarrow> Inl err
                | Inr all_results \<Rightarrow> Inr (json_dumps B (JArr all_results)))
           | _ \<Rightarrow>
               Inr (json_dumps B
                     (JObj [(''error'', JStr ''Input must be a JSON array of line items.'')]))))"

section \<open>Observations used in the statements\<close>

definition approved :: "pydict \<Rightarrow> bool" where
  \<comment> \<open>the returned dictionary says \<^verbatim>\<open>"approved_for_quote": True\<close>\<close>
  "approved r = (map_of r ''approved_for_quote'' = Some (JBool True))"

definition result_of :: "pyerr + (pydict \<times> engine) \<Rightarrow> pyerr + pydict" where
  \<comment> \<open>what the caller of \<^verbatim>\<open>calculate_price\<close> sees: the dictionary, or the exception\<close>
  "result_of x = map_sum id fst x"

definition stock_of :: "engine \<Rightarrow> json" where
  \<comment> \<open>\<^verbatim>\<open>stock\<close> as \<^verbatim>\<open>_apply_inventory_rules\<close> reads it\<close>
  "stock_of e = dict_get (product e) ''Quantity_in_Stock'' (JInt 0)"

definition reorder_level_of :: "engine \<Rightarrow> json" where
  \<comment> \<open>\<^verbatim>\<open>reorder_level\<close> as \<^verbatim>\<open>_apply_inventory_rules\<close> reads it\<close>
  "reorder_level_of e = dict_get (product e) ''Reorder_Level'' (JInt 1)"

definition appended_magnitudes :: "builtins \<Rightarrow> engine \<Rightarrow> rat list option" where
  \<comment> \<open>the values of the adjustments \<^verbatim>\<open>_apply_inventory_rules\<close> appends to the trail\<close>
  "appended_magnitudes B e =
     (case apply_inventory_rules B e of
        Inl err \<Rightarrow> None
      | Inr e' \<Rightarrow> Some (map (pn_val \<circ> adj_value) (drop (length (adjustments e)) (adjustments e'))))"

definition inventory_discount :: "rat \<Rightarrow> rat \<Rightarrow> rat" where
  \<comment> \<open>the discount of stock \<open>s\<close> at reorder level \<open>r\<close>, in percent\<close>
  "inventory_discount s r = min (s / (2 * r) * (5 / 100)) (20 / 100) * 100"

definition with_reorder_level :: "json \<Rightarrow> pydict \<Rightarrow> pydict" where
  \<comment> \<open>the record with the key \<^verbatim>\<open>Reorder_Level\<close> set\<close>
  "with_reorder_level v p = (''Reorder_Level'', v) # p"

definition entry_aborts :: "json \<Rightarrow> bool" where
  \<comment> \<open>the entry is no dictionary, or it has a quantity and a truthy \<^verbatim>\<open>product_json\<close>
      that is no dictionary\<close>
  "entry_aborts item =
     (case item of
        JObj d \<Rightarrow>
          (case dict_get d ''product_json'' JNull of
             JObj p \<Rightarrow> False
           | v \<Rightarrow> py_truthy v \<and> dict_get d ''quantity'' JNull \<noteq> JNull)
      | _ \<Rightarrow> True)"

text \<open>What the order-value rule and the factor rules append, rule by rule.\<close>

definition order_adjustments :: "int \<Rightarrow> adjustment list" where
  "order_adjustments q =
     (if 25 \<le> q
      then [\<lparr>adj_type = ''discount'', adj_value = PFloat (75 / 10), adj_reason = bulk_reason q\<rparr>]
      else [])"

definition seasonal_adjustments :: "builtins \<Rightarrow> nat \<Rightarrow> pydict \<Rightarrow> adjustment list" where
  "seasonal_adjustments B month p =
     (if ''Weather & Seasons'' \<in> set (factors_of B p) \<and> month \<in> set [5, 6, 7, 8]
           \<and> dict_get p ''Category'' (JStr []) \<in> set (map JStr SEASONAL_SUMMER_CATEGORIES)
      then [\<lparr>adj_type = ''markup'', adj_value = PFloat 10,
             adj_reason = seasonal_reason B (dict_get p ''Category'' (JStr []))\<rparr>]
      else [])"

definition demographic_adjustments :: "builtins \<Rightarrow> pydict \<Rightarrow> adjustment list" where
  "demographic_adjustments B p =
     (if ''Age'' \<in> set (factors_of B p) \<or> ''Gender'' \<in> set (factors_of B p)
      then [\<lparr>adj_type = ''markup'', adj_value = PFloat 3, adj_reason = demographic_reason\<rparr>]
      else [])"

definition later_adjustments :: "builtins \<Rightarrow> nat \<Rightarrow> pydict \<Rightarrow> int \<Rightarrow> adjustment list" where
  "later_adjustments B month p q =
     order_adjustments q @ seasonal_adjustments B month p @ demographic_adjustments B p"


section \<open>Inputs of the examples\<close>

definition B0 :: builtins where
  \<comment> \<open>a stand-in runtime for the examples: every theorem below holds for any runtime\<close>
  "B0 = \<lparr>float_of_str = (\<lambda>s. None), int_of_str = (\<lambda>s. None), repr_of = (\<lambda>v. ''?''),
          str_of_exc = (\<lambda>e. ''exception''), list_gt = (\<lambda>a b. Inl TypeError),
          json_loads = (\<lambda>s. Inl ''no JSON''), json_dumps = (\<lambda>v. ''JSON'')\<rparr>"

definition scenario1 :: pydict where
  "scenario1 =
     [(''Product_Name'', JStr ''Widget''), (''Min_Selling_Price_Rs'', JInt 100),
      (''Quantity_in_Stock'', JInt 50), (''Reorder_Level'', JInt 10),
      (''Stock_Status'', JStr ''In Stock'')]"

definition null_price :: pydict where
  "null_price =
     [(''Product_Name'', JStr ''Widget''), (''Min_Selling_Price_Rs'', JNull),
      (''Quantity_in_Stock'', JInt 50), (''Reorder_Level'', JInt 10),
      (''Stock_Status'', JStr ''In Stock'')]"

definition thirds :: pydict where
  "thirds =
     [(''Product_Name'', JStr ''Widget''), (''Min_Selling_Price_Rs'', JInt 1000),
      (''Quantity_in_Stock'', JInt 700), (''Reorder_Level'', JInt 300),
      (''Stock_Status'', JStr ''In Stock'')]"

definition no_reorder_level :: pydict where
  "no_reorder_level =
     [(''Product_Name'', JStr ''Widget''), (''Min_Selling_Price_Rs'', JInt 100),
      (''Quantity_in_Stock'', JInt 3), (''Stock_Status'', JStr ''In Stock'')]"

definition on_shelf :: "int \<Rightarrow> int \<Rightarrow> engine" where
  "on_shelf s r =
     \<lparr>product = [(''Quantity_in_Stock'', JInt s), (''Reorder_Level'', JInt r)], quantity = 1,
      base_price = 100, adjustments = [], final_price = 100\<rparr>"

definition purchasing_power :: pydict where
  "purchasing_power =
     [(''Product_Name'', JStr ''Widget''), (''Min_Selling_Price_Rs'', JInt 100),
      (''Quantity_in_Stock'', JInt 50), (''Reorder_Level'', JInt 10),
      (''Stock_Status'', JStr ''In Stock''), (''Factor_1'', JStr ''Purchasing Power''),
      (''Factor_2'', JStr ''Age'')]"

definition priced_item :: "rat \<Rightarrow> string list \<Rightarrow> pydict" where
  "priced_item n rs =
     [(''product_name'', JStr ''Widget''), (''approved_for_quote'', JBool True),
      (''net_price_adjustment_percentage'', JFloat n),
      (''reasoning_breakdown'', JArr (map JStr rs))]"

definition sample_repr :: "json \<Rightarrow> string" where
  \<comment> \<open>how Python prints the floats of the examples\<close>
  "sample_repr v =
     (if v = JFloat 25 then ''25.0''
      else if v = JFloat (2501 / 100) then ''25.01''
      else ''?'')"

definition B2 :: builtins where
  \<comment> \<open>the stand-in runtime, printing the floats of the examples as Python does\<close>
  "B2 = B0\<lparr>repr_of := sample_repr\<rparr>"

definition sample_batch :: "json list" where
  "sample_batch =
     [JObj [(''product_json'', JObj scenario1), (''quantity'', JInt 30)],
      JObj [(''product_json'', JObj scenario1)],
      JObj [(''quantity'', JInt 5)],
      JObj [(''product_json'', JObj scenario1), (''quantity'', JStr ''many'')],
      JObj [(''product_json'', JObj null_price), (''quantity'', JInt 2)]]"

definition B1 :: builtins where
  \<comment> \<open>the stand-in runtime, reading every text as the sample batch\<close>
  "B1 = B0\<lparr>json_loads := (\<lambda>s. Inr (JArr sample_batch))\<rparr>"

definition failing_batch :: "json list" where
  "failing_batch =
     [JObj [(''product_json'', JObj scenario1), (''quantity'', JInt 30)],
      JObj [(''product_json'', JStr ''Widget''), (''quantity'', JInt 1)]]"

definition B3 :: builtins where
  \<comment> \<open>the stand-in runtime, reading every text as the failing batch\<close>
  "B3 = B0\<lparr>json_loads := (\<lambda>s. Inr (JArr failing_batch))\<rparr>"

section \<open>Properties\<close>

lemmas engine_defs = calculate_def init_def calculate_price_def missing_keys_def required_keys_def
  has_key_def dict_get_def apply_rules_def apply_inventory_rules_def apply_order_value_rules_def
  apply_factor_based_rules_def factors_of_def append_adj_def py_truediv_def
  approved_result_def total_adjustment_percentage_def total_step_def final_single_unit_price_def
  reasoning_breakdown_def strip_def

subsection \<open>Reading the record\<close>

lemma dict_get_absent: "map_of p k = None \<Longrightarrow> dict_get p k d = d"
  by (simp add: dict_get_def)

lemma dict_get_present: "has_key p k \<Longrightarrow> dict_get p k d = dict_get p k d'"
  by (auto simp: dict_get_def has_key_def)

lemma dict_get_with_reorder_level:
  "k \<noteq> ''Reorder_Level'' \<Longrightarrow> dict_get (with_reorder_level v p) k d = dict_get p k d"
  "k \<noteq> ''Reorder_Level'' \<Longrightarrow> has_key (with_reorder_level v p) k = has_key p k"
  "dict_get (with_reorder_level v p) ''Reorder_Level'' d = v"
  by (simp_all add: with_reorder_level_def dict_get_def has_key_def)

lemma missing_keys_Nil:
  assumes "missing_keys p = []"
  shows "has_key p ''Product_Name'' \<and> has_key p ''Quantity_in_Stock'' \<and> has_key p ''Stock_Status''
     \<and> has_key p ''Min_Selling_Price_Rs''"
  using assms by (simp add: missing_keys_def required_keys_def split: if_splits)

lemma num_val_cases:
  assumes "num_val v = Some x"
  obtains b where "v = JBool b" "x = (if b then 1 else 0)"
  | i where "v = JInt i" "x = of_int i"
  | "v = JFloat x"
  using assms by (cases v) auto

subsection \<open>Rounding\<close>

lemma round2_values:
  "round2 (260000 / 3) = 8666667 / 100"
  "round2 (2600 / 3) = 86667 / 100"
  "round2 (- (40 / 3)) = - (1333 / 100)"
  "round2 1000 = 1000"
  "round2 86667 = 86667"
  "round2 (8667 / 10) = 8667 / 10"
  "round2 (175 / 2) = 175 / 2"
  "round2 (- (525 / 2)) = - (525 / 2)"
  "round2 0 = 0"
  "round2 100 = 100"
  "round2 (185 / 2) = 185 / 2"
  "round2 (- (15 / 2)) = - (15 / 2)"
  "round2 80 = 80"
  "round2 2400 = 2400"
  "round2 (- 20) = - 20"
  "round2 (- 40) = - 40"
  by code_simp+

subsection \<open>What the methods leave unchanged\<close>

lemma init_fields:
  "init B p q = Inr e \<Longrightarrow> product e = p \<and> quantity e = q \<and> adjustments e = []"
  by (auto simp: init_def split: sum.splits)

lemma apply_inventory_rules_fields:
  "apply_inventory_rules B e = Inr e' \<Longrightarrow>
     product e' = product e \<and> quantity e' = quantity e \<and> base_price e' = base_price e"
  by (auto simp: apply_inventory_rules_def append_adj_def Let_def split: if_splits sum.splits bool.splits)

lemma apply_order_value_rules_fields:
  "product (apply_order_value_rules e) = product e \<and> quantity (apply_order_value_rules e) = quantity e
    \<and> base_price (apply_order_value_rules e) = base_price e"
  by (simp add: apply_order_value_rules_def append_adj_def)

lemma apply_factor_based_rules_fields:
  "product (apply_factor_based_rules B m e) = product e \<and> quantity (apply_factor_based_rules B m e) = quantity e
    \<and> base_price (apply_factor_based_rules B m e) = base_price e"
  by (simp add: apply_factor_based_rules_def append_adj_def Let_def)

lemma apply_rules_fields:
  "apply_rules B m e = Inr e' \<Longrightarrow>
     product e' = product e \<and> quantity e' = quantity e \<and> base_price e' = base_price e"
  by (auto simp: apply_rules_def apply_order_value_rules_fields apply_factor_based_rules_fields
      dest: apply_inventory_rules_fields split: sum.splits)

lemma calculate_price_fields:
  "calculate_price B m e = Inr (r, e') \<Longrightarrow>
     product e' = product e \<and> quantity e' = quantity e \<and> base_price e' = base_price e"
  by (auto simp: calculate_price_def Let_def dest: apply_rules_fields
      split: if_splits sum.splits bool.splits)


lemma calculate_price_approved:
  assumes "calculate_price B m e = Inr (r, e')" and "approved r"
  shows "apply_rules B m e = Inr e' \<and> r = approved_result e'"
  using assms
  by (auto simp: calculate_price_def approved_def incomplete_result_def rejected_result_def Let_def
      split: if_splits sum.splits bool.splits)

lemma calculate_approved:
  assumes "calculate B m p q = Inr (r, e')" and "approved r"
  obtains e where "init B p q = Inr e" "apply_rules B m e = Inr e'" "r = approved_result e'"
    "product e' = p" "quantity e' = q" "base_price e' = base_price e"
proof -
  from assms(1) obtain e where e: "init B p q = Inr e" and cp: "calculate_price B m e = Inr (r, e')"
    by (auto simp: calculate_def split: sum.splits)
  from calculate_price_approved [OF cp assms(2)] calculate_price_fields [OF cp] init_fields [OF e] e
  show ?thesis by (intro that [of e]) simp_all
qed

subsection \<open>The inventory rule on numbers\<close>

lemma apply_inventory_rules_num:
  assumes s: "num_val (dict_get (product e) ''Quantity_in_Stock'' (JInt 0)) = Some s"
    and r: "num_val (dict_get (product e) ''Reorder_Level'' (JInt 1)) = Some r"
  shows "apply_inventory_rules B e =
     (if r \<noteq> 0 \<and> 2 * r < s
      then Inr (append_adj \<lparr>adj_type = ''discount'', adj_value = PFloat (inventory_discount s r),
                  adj_reason = inventory_reason B (dict_get (product e) ''Quantity_in_Stock'' (JInt 0))\<rparr> e)
      else Inr e)"
proof -
  let ?st = "dict_get (product e) ''Quantity_in_Stock'' (JInt 0)"
  let ?rl = "dict_get (product e) ''Reorder_Level'' (JInt 1)"
  have t: "py_truthy ?rl = (r \<noteq> 0)"
    using r by (cases ?rl) (auto split: if_splits)
  obtain tw where tw: "py_mul2 ?rl = Inr tw" "num_val tw = Some (2 * r)"
    using r by (cases ?rl) (auto split: if_splits)
  have g: "py_gt B ?st tw = Inr (2 * r < s)"
    using s tw(2) by (cases ?st; cases tw) (auto split: if_splits)
  have d: "r \<noteq> 0 \<Longrightarrow> py_truediv ?st tw = Inr (s / (2 * r))"
    using s tw(2) by (simp add: py_truediv_def)
  show ?thesis
    using t tw(1) g d
    by (simp add: apply_inventory_rules_def Let_def inventory_discount_def)
qed

lemma inventory_discount_le: "inventory_discount s r \<le> 20"
  by (simp add: inventory_discount_def min_def)

lemma inventory_discount_mono:
  assumes "0 < r" "s1 \<le> s2"
  shows "inventory_discount s1 r \<le> inventory_discount s2 r"
proof -
  from assms have "s1 / (2 * r) \<le> s2 / (2 * r)"
    by (simp add: divide_right_mono)
  then show ?thesis
    by (simp add: inventory_discount_def min_def)
qed

lemma appended_cap:
  assumes "appended_magnitudes B e = Some vs" "v \<in> set vs"
  shows "v \<le> 20"
  using assms
  by (auto simp: appended_magnitudes_def apply_inventory_rules_def append_adj_def Let_def min_def
      split: sum.splits if_splits bool.splits)

subsection \<open>Scenario 1\<close>

lemma scenario1_run:
  "calculate B month scenario1 30 =
     Inr ([(''product_name'', JStr ''Widget''),
           (''quantity_requested'', JInt 30),
           (''approved_for_quote'', JBool True),
           (''base_single_unit_price'', JFloat 100),
           (''final_single_unit_price'', JFloat 80),
           (''total_price'', JFloat 2400),
           (''net_price_adjustment_percentage'', JFloat (- 20)),
           (''reasoning_breakdown'',
            JArr [JStr (inventory_reason B (JInt 50)), JStr (bulk_reason 30)]),
           (''competitors'',
            JObj [(''SmartBuy'', JNull), (''ClicKart'', JNull),
                  (''ShopiSky'', JNull), (''Neesho'', JNull)]),
           (''status'', JStr ''Available'')],
          \<lparr>product = scenario1, quantity = 30, base_price = 100,
           adjustments =
             [\<lparr>adj_type = ''discount'', adj_value = PFloat (125 / 10),
               adj_reason = inventory_reason B (JInt 50)\<rparr>,
              \<lparr>adj_type = ''discount'', adj_value = PFloat (75 / 10),
               adj_reason = bulk_reason 30\<rparr>],
           final_price = 100\<rparr>)"
  by (simp add: engine_defs scenario1_def Let_def round2_values)

text \<open>
  C6. A product with minimum selling price 100, 50 units in stock, reorder level 10,
  in stock and with no factors, asked for 30 units, is approved; the trail holds an
  inventory discount of 12.5 and a bulk discount of 7.5, the net adjustment is -20,
  the unit price 80 and the total 2400, whatever the month and the runtime.
\<close>

theorem C6_scenario1:
  "\<exists>r e. calculate B month scenario1 30 = Inr (r, e) \<and> approved r
     \<and> map (\<lambda>a. (adj_type a, adj_value a)) (adjustments e)
         = [(''discount'', PFloat (125 / 10)), (''discount'', PFloat (75 / 10))]
     \<and> map adj_reason (adjustments e) = [inventory_reason B (JInt 50), bulk_reason 30]
     \<and> map_of r ''net_price_adjustment_percentage'' = Some (JFloat (- 20))
     \<and> map_of r ''final_single_unit_price'' = Some (JFloat 80)
     \<and> map_of r ''total_price'' = Some (JFloat 2400)
     \<and> map_of r ''status'' = Some (JStr ''Available'')"
  by (simp add: scenario1_run approved_def)

theorem C6_scenario1_witness:
  "\<exists>r e. calculate B0 6 scenario1 30 = Inr (r, e) \<and> approved r
     \<and> map_of r ''final_single_unit_price'' = Some (JFloat 80)
     \<and> map_of r ''total_price'' = Some (JFloat 2400)"
  using C6_scenario1 [of B0 6] by blast

subsection \<open>Incomplete records\<close>

lemma calculate_incomplete:
  assumes "missing_keys p \<noteq> []"
    and "py_float B (dict_get p ''Min_Selling_Price_Rs'' (JInt 0)) = Inr b"
  shows "result_of (calculate B month p q) = Inr (incomplete_result p)"
  using assms by (simp add: calculate_def init_def calculate_price_def result_of_def)

text \<open>
  C1. A record whose minimum selling price is null never reaches the pre-flight check:
  the constructor's \<^verbatim>\<open>float(None)\<close> raises \<^verbatim>\<open>TypeError\<close>, for every quantity, and the
  calculator tool reports the entry as failed instead of as incomplete. (For a record
  whose price converts, \<open>calculate_incomplete\<close> gives the unapproved result of the claim.)
\<close>

theorem C1_null_price_raises:
  "calculate B month null_price q = Inl TypeError
   \<and> process_item B month (JObj [(''product_json'', JObj null_price), (''quantity'', JInt q)])
       = Inr (JObj [(''error'', JStr (''Failed to process item Widget. Details: ''
                                      @ str_of_exc B TypeError))])"
  by (simp add: calculate_def init_def null_price_def dict_get_def process_item_def
      engine_call_def failed_entry_def)

theorem C1_null_price_raises_witness:
  "calculate B0 6 null_price 1 = Inl TypeError \<and> missing_keys null_price = [''Min_Selling_Price_Rs'']"
  using C1_null_price_raises [of B0 6 1]
  by (simp add: missing_keys_def required_keys_def has_key_def dict_get_def null_price_def)

subsection \<open>Rounding at the point of output\<close>

text \<open>
  C2, as the claim states it, fails: 1000 at a net adjustment of -40/3 per cent, 100 units.
  The returned total 86666.67 is not the rounded unit price 866.67 times 100, rounded
  (86667), and the returned unit price 866.67 is not the base price adjusted by the
  rounded net percentage -13.33, rounded (866.70).
\<close>

theorem C2_counterexample:
  "\<not> isl (calculate B0 6 thirds 100)
   \<and> map_of (fst (projr (calculate B0 6 thirds 100))) ''approved_for_quote'' = Some (JBool True)
   \<and> map_of (fst (projr (calculate B0 6 thirds 100))) ''base_single_unit_price'' = Some (JFloat 1000)
   \<and> map_of (fst (projr (calculate B0 6 thirds 100))) ''net_price_adjustment_percentage''
        = Some (JFloat (- (1333 / 100)))
   \<and> map_of (fst (projr (calculate B0 6 thirds 100))) ''final_single_unit_price''
        = Some (JFloat (86667 / 100))
   \<and> map_of (fst (projr (calculate B0 6 thirds 100))) ''total_price'' = Some (JFloat (8666667 / 100))
   \<and> round2 (86667 / 100 * 100) = 86667
   \<and> round2 (1000 * (1 + (- (1333 / 100)) / 100)) = 8667 / 10
   \<and> (8666667 / 100 :: rat) \<noteq> 86667
   \<and> (86667 / 100 :: rat) \<noteq> 8667 / 10"
  by (simp add: engine_defs thirds_def Let_def round2_values)

text \<open>
  C2, amended. For every approved result the returned total is the unrounded unit price
  times the quantity, rounded; the returned unit price is the unrounded unit price,
  rounded; the returned net percentage is the unrounded sum, rounded; and the unrounded
  unit price is the base price times one plus the unrounded net percentage over 100.
  Nothing is rounded before the result is built.
\<close>

theorem C2_rounded_at_output_only:
  assumes "calculate B m p q = Inr (r, e')" and "approved r"
  shows "map_of r ''total_price'' = Some (JFloat (round2 (final_single_unit_price e' * of_int q)))
     \<and> map_of r ''final_single_unit_price'' = Some (JFloat (round2 (final_single_unit_price e')))
     \<and> map_of r ''net_price_adjustment_percentage''
          = Some (pn_round2 (total_adjustment_percentage (adjustments e')))
     \<and> map_of r ''base_single_unit_price'' = Some (JFloat (round2 (base_price e')))
     \<and> final_single_unit_price e'
          = base_price e' * (1 + pn_val (total_adjustment_percentage (adjustments e')) / 100)
     \<and> py_float B (dict_get p ''Min_Selling_Price_Rs'' (JInt 0)) = Inr (base_price e')"
proof -
  from assms obtain e where e: "init B p q = Inr e" "r = approved_result e'" "quantity e' = q"
    "base_price e' = base_price e"
    by (rule calculate_approved)
  from e(1) have "py_float B (dict_get p ''Min_Selling_Price_Rs'' (JInt 0)) = Inr (base_price e)"
    by (auto simp: init_def split: sum.splits)
  with e show ?thesis
    by (simp add: approved_result_def Let_def final_single_unit_price_def)
qed

lemma thirds_run:
  "calculate B0 6 thirds 100 =
     Inr (fst (projr (calculate B0 6 thirds 100)), snd (projr (calculate B0 6 thirds 100)))
   \<and> approved (fst (projr (calculate B0 6 thirds 100)))
   \<and> final_single_unit_price (snd (projr (calculate B0 6 thirds 100))) = 2600 / 3"
  by (simp add: engine_defs thirds_def Let_def approved_def)

theorem C2_rounded_at_output_only_witness:
  "map_of (fst (projr (calculate B0 6 thirds 100))) ''total_price''
     = Some (JFloat (round2 (2600 / 3 * 100)))
   \<and> map_of (fst (projr (calculate B0 6 thirds 100))) ''final_single_unit_price''
     = Some (JFloat (round2 (2600 / 3)))"
  using C2_rounded_at_output_only [of B0 6 thirds 100 "fst (projr (calculate B0 6 thirds 100))"
      "snd (projr (calculate B0 6 thirds 100))"] thirds_run
  by simp

subsection \<open>The inventory discount\<close>

text \<open>
  C7. At a fixed reorder level above 0, of two stock quantities above twice the reorder
  level the larger gets a discount at least as large; whatever the rule appends is at
  most 20; at reorder level 0 the rule appends nothing.
\<close>

theorem C7_inventory_discount_monotone_capped:
  "(num_val (reorder_level_of e1) = Some r \<and> num_val (reorder_level_of e2) = Some r
      \<and> num_val (stock_of e1) = Some s1 \<and> num_val (stock_of e2) = Some s2
      \<and> 0 < r \<and> 2 * r < s1 \<and> s1 \<le> s2
     \<longrightarrow> (appended_magnitudes B e1 = Some [inventory_discount s1 r]
          \<and> appended_magnitudes B e2 = Some [inventory_discount s2 r]
          \<and> 0 < inventory_discount s1 r
          \<and> inventory_discount s1 r \<le> inventory_discount s2 r
          \<and> inventory_discount s2 r \<le> 20))
   \<and> (\<forall>vs. appended_magnitudes B e = Some vs \<longrightarrow> (\<forall>v \<in> set vs. v \<le> 20))
   \<and> (num_val (reorder_level_of e0) = Some 0 \<longrightarrow> apply_inventory_rules B e0 = Inr e0)"
proof -
  have mono: "appended_magnitudes B e1 = Some [inventory_discount s1 r]
          \<and> appended_magnitudes B e2 = Some [inventory_discount s2 r]
          \<and> 0 < inventory_discount s1 r
          \<and> inventory_discount s1 r \<le> inventory_discount s2 r
          \<and> inventory_discount s2 r \<le> 20"
    if a: "num_val (reorder_level_of e1) = Some r \<and> num_val (reorder_level_of e2) = Some r
      \<and> num_val (stock_of e1) = Some s1 \<and> num_val (stock_of e2) = Some s2
      \<and> 0 < r \<and> 2 * r < s1 \<and> s1 \<le> s2"
  proof -
    from a have f1: "appended_magnitudes B e1 = Some [inventory_discount s1 r]"
      and f2: "appended_magnitudes B e2 = Some [inventory_discount s2 r]"
      by (simp_all add: appended_magnitudes_def apply_inventory_rules_num stock_of_def
          reorder_level_of_def append_adj_def)
    from a have "0 < s1 / (2 * r)" by simp
    then have pos: "0 < inventory_discount s1 r"
      by (simp add: inventory_discount_def min_def)
    from a have "inventory_discount s1 r \<le> inventory_discount s2 r"
      by (simp add: inventory_discount_mono)
    with f1 f2 pos inventory_discount_le [of s2 r] show ?thesis by simp
  qed
  have cap: "\<forall>vs. appended_magnitudes B e = Some vs \<longrightarrow> (\<forall>v \<in> set vs. v \<le> 20)"
    using appended_cap by blast
  have zero: "apply_inventory_rules B e0 = Inr e0" if z: "num_val (reorder_level_of e0) = Some 0"
  proof -
    have "py_truthy (reorder_level_of e0) = False"
      using z by (cases "reorder_level_of e0") (auto split: if_splits)
    then show ?thesis
      by (simp add: apply_inventory_rules_def reorder_level_of_def Let_def)
  qed
  from mono cap zero show ?thesis by blast
qed

theorem C7_inventory_discount_monotone_capped_witness:
  "appended_magnitudes B0 (on_shelf 50 10) = Some [125 / 10]
   \<and> appended_magnitudes B0 (on_shelf 70 10) = Some [175 / 10]
   \<and> appended_magnitudes B0 (on_shelf 500 10) = Some [20]
   \<and> apply_inventory_rules B0 (on_shelf 50 0) = Inr (on_shelf 50 0)"
proof -
  have h: "num_val (reorder_level_of (on_shelf 50 10)) = Some 10 \<and> num_val (reorder_level_of (on_shelf 70 10)) = Some 10
      \<and> num_val (stock_of (on_shelf 50 10)) = Some 50 \<and> num_val (stock_of (on_shelf 70 10)) = Some 70
      \<and> (0::rat) < 10 \<and> (2::rat) * 10 < 50 \<and> (50::rat) \<le> 70"
    by (simp add: on_shelf_def reorder_level_of_def stock_of_def dict_get_def)
  have h2: "num_val (reorder_level_of (on_shelf 70 10)) = Some 10 \<and> num_val (reorder_level_of (on_shelf 500 10)) = Some 10
      \<and> num_val (stock_of (on_shelf 70 10)) = Some 70 \<and> num_val (stock_of (on_shelf 500 10)) = Some 500
      \<and> (0::rat) < 10 \<and> (2::rat) * 10 < 70 \<and> (70::rat) \<le> 500"
    by (simp add: on_shelf_def reorder_level_of_def stock_of_def dict_get_def)
  have z: "num_val (reorder_level_of (on_shelf 50 0)) = Some 0"
    by (simp add: on_shelf_def reorder_level_of_def dict_get_def)
  from C7_inventory_discount_monotone_capped [of "on_shelf 50 10" 10 "on_shelf 70 10" 50 70 B0 "on_shelf 50 10" "on_shelf 50 0"]
    C7_inventory_discount_monotone_capped [of "on_shelf 70 10" 10 "on_shelf 500 10" 70 500 B0 "on_shelf 50 10" "on_shelf 50 0"]
    h h2 z
  show ?thesis
    by (simp add: inventory_discount_def)
qed

subsection \<open>A record without a reorder level\<close>

lemma init_with_reorder_level:
  "init B (with_reorder_level v p) q = map_sum id (\<lambda>e. e\<lparr>product := with_reorder_level v p\<rparr>) (init B p q)"
  by (simp add: init_def dict_get_with_reorder_level split: sum.splits)

lemma missing_keys_with_reorder_level:
  "missing_keys (with_reorder_level v p) = missing_keys p"
  by (simp add: missing_keys_def required_keys_def dict_get_with_reorder_level)

lemma factors_of_with_reorder_level:
  "factors_of B (with_reorder_level v p) = factors_of B p"
  by (simp add: factors_of_def dict_get_with_reorder_level)

lemma apply_inventory_rules_default:
  assumes "map_of (product e) ''Reorder_Level'' = None"
  shows "apply_inventory_rules B (e\<lparr>product := with_reorder_level (JInt 1) (product e)\<rparr>)
    = map_sum id (\<lambda>x. x\<lparr>product := with_reorder_level (JInt 1) (product e)\<rparr>) (apply_inventory_rules B e)"
  using assms
  by (simp add: apply_inventory_rules_def dict_get_with_reorder_level dict_get_absent append_adj_def Let_def
      split: sum.splits bool.splits)

lemma apply_order_value_rules_product:
  "apply_order_value_rules (e\<lparr>product := p'\<rparr>) = (apply_order_value_rules e)\<lparr>product := p'\<rparr>"
  by (simp add: apply_order_value_rules_def append_adj_def)

lemma apply_factor_based_rules_with_reorder_level:
  "apply_factor_based_rules B m (e\<lparr>product := with_reorder_level v (product e)\<rparr>)
     = (apply_factor_based_rules B m e)\<lparr>product := with_reorder_level v (product e)\<rparr>"
  by (simp add: apply_factor_based_rules_def factors_of_with_reorder_level dict_get_with_reorder_level
      append_adj_def Let_def)

lemma apply_rules_default:
  assumes "map_of (product e) ''Reorder_Level'' = None"
  shows "apply_rules B m (e\<lparr>product := with_reorder_level (JInt 1) (product e)\<rparr>)
    = map_sum id (\<lambda>x. x\<lparr>product := with_reorder_level (JInt 1) (product e)\<rparr>) (apply_rules B m e)"
proof (cases "apply_inventory_rules B e")
  case (Inl err)
  with assms show ?thesis
    by (simp add: apply_rules_def apply_inventory_rules_default)
next
  case (Inr e1)
  then have p: "product e1 = product e" by (simp add: apply_inventory_rules_fields)
  have "apply_factor_based_rules B m
          ((apply_order_value_rules e1)\<lparr>product := with_reorder_level (JInt 1) (product (apply_order_value_rules e1))\<rparr>)
        = (apply_factor_based_rules B m (apply_order_value_rules e1))
            \<lparr>product := with_reorder_level (JInt 1) (product (apply_order_value_rules e1))\<rparr>"
    by (rule apply_factor_based_rules_with_reorder_level)
  with assms Inr p show ?thesis
    by (simp add: apply_rules_def apply_inventory_rules_default apply_order_value_rules_product
        apply_order_value_rules_fields)
qed

lemma calculate_price_default:
  assumes "map_of (product e) ''Reorder_Level'' = None"
  shows "result_of (calculate_price B m (e\<lparr>product := with_reorder_level (JInt 1) (product e)\<rparr>))
    = result_of (calculate_price B m e)"
proof (cases "apply_rules B m e")
  case (Inl err)
  with assms show ?thesis
    by (simp add: calculate_price_def result_of_def missing_keys_with_reorder_level
        dict_get_with_reorder_level incomplete_result_def rejected_result_def apply_rules_default Let_def
        split: sum.splits bool.splits)
next
  case (Inr e')
  then have "product e' = product e" by (simp add: apply_rules_fields)
  then have "approved_result (e'\<lparr>product := with_reorder_level (JInt 1) (product e)\<rparr>) = approved_result e'"
    by (simp add: approved_result_def dict_get_with_reorder_level final_single_unit_price_def Let_def)
  with assms Inr show ?thesis
    by (simp add: calculate_price_def result_of_def missing_keys_with_reorder_level
        dict_get_with_reorder_level incomplete_result_def rejected_result_def apply_rules_default Let_def
        split: sum.splits bool.splits)
qed

lemma calculate_default:
  assumes "map_of p ''Reorder_Level'' = None"
  shows "result_of (calculate B m (with_reorder_level (JInt 1) p) q) = result_of (calculate B m p q)"
proof (cases "init B p q")
  case (Inl err)
  then show ?thesis
    by (simp add: calculate_def init_with_reorder_level result_of_def)
next
  case (Inr e)
  then have p: "product e = p" by (simp add: init_fields)
  with assms calculate_price_default [of e B m] Inr show ?thesis
    by (simp add: calculate_def init_with_reorder_level)
qed

text \<open>
  C9. When the record has no key \<^verbatim>\<open>Reorder_Level\<close>, \<^verbatim>\<open>calculate_price\<close> returns what it
  returns for the same record with reorder level 1: on a numeric stock \<open>s\<close> the inventory
  rule appends a discount of min((s/2) * 5%, 20%) when \<open>s > 2\<close> and nothing otherwise;
  with reorder level 0 in the record it appends nothing at all.
\<close>

theorem C9_absent_reorder_level_is_one:
  assumes "map_of p ''Reorder_Level'' = None"
  shows "result_of (calculate B m p q) = result_of (calculate B m (with_reorder_level (JInt 1) p) q)
     \<and> (\<forall>e s. product e = p \<and> num_val (stock_of e) = Some s \<longrightarrow>
           apply_inventory_rules B e =
             (if 2 < s
              then Inr (append_adj \<lparr>adj_type = ''discount'',
                          adj_value = PFloat (min (s / 2 * (5 / 100)) (20 / 100) * 100),
                          adj_reason = inventory_reason B (stock_of e)\<rparr> e)
              else Inr e))
     \<and> (\<forall>e. product e = with_reorder_level (JInt 0) p \<longrightarrow> apply_inventory_rules B e = Inr e)"
proof -
  have one: "apply_inventory_rules B e =
             (if 2 < s
              then Inr (append_adj \<lparr>adj_type = ''discount'',
                          adj_value = PFloat (min (s / 2 * (5 / 100)) (20 / 100) * 100),
                          adj_reason = inventory_reason B (stock_of e)\<rparr> e)
              else Inr e)"
    if "product e = p \<and> num_val (stock_of e) = Some s" for e s
  proof -
    from that assms have r: "num_val (dict_get (product e) ''Reorder_Level'' (JInt 1)) = Some 1"
      by (simp add: dict_get_absent)
    from that have s: "num_val (dict_get (product e) ''Quantity_in_Stock'' (JInt 0)) = Some s"
      unfolding stock_of_def by blast
    show ?thesis
      unfolding apply_inventory_rules_num [OF s r]
      by (simp add: stock_of_def inventory_discount_def)
  qed
  have zero: "apply_inventory_rules B e = Inr e" if "product e = with_reorder_level (JInt 0) p" for e
    using that by (simp add: apply_inventory_rules_def dict_get_with_reorder_level Let_def)
  from calculate_default [OF assms, of B m q] one zero show ?thesis
    by simp
qed

theorem C9_absent_reorder_level_is_one_witness:
  "result_of (calculate B0 6 no_reorder_level 1)
     = result_of (calculate B0 6 (with_reorder_level (JInt 1) no_reorder_level) 1)
   \<and> map (pn_val \<circ> adj_value) (adjustments (snd (projr (calculate B0 6 no_reorder_level 1)))) = [75 / 10]
   \<and> map (pn_val \<circ> adj_value)
        (adjustments (snd (projr (calculate B0 6 (with_reorder_level (JInt 0) no_reorder_level) 1)))) = []"
proof -
  have h: "map_of no_reorder_level ''Reorder_Level'' = None"
    by (simp add: no_reorder_level_def)
  from C9_absent_reorder_level_is_one [OF h, of B0 6 1]
  have "result_of (calculate B0 6 no_reorder_level 1)
     = result_of (calculate B0 6 (with_reorder_level (JInt 1) no_reorder_level) 1)"
    by blast
  moreover have "map (pn_val \<circ> adj_value) (adjustments (snd (projr (calculate B0 6 no_reorder_level 1)))) = [75 / 10]"
    by (simp add: engine_defs no_reorder_level_def Let_def)
  moreover have "map (pn_val \<circ> adj_value)
        (adjustments (snd (projr (calculate B0 6 (with_reorder_level (JInt 0) no_reorder_level) 1)))) = []"
    by (simp add: engine_defs no_reorder_level_def with_reorder_level_def Let_def)
  ultimately show ?thesis by simp
qed

subsection \<open>Quantities that are not positive\<close>

text \<open>
  C10. For a record that passes the pre-flight check, is not out of stock, has a numeric
  stock the quantity does not exceed, a price that converts to a float and a reorder
  level that is absent, null or a number, a quantity of 0 or below is priced like any
  other: the result is approved, with status Available, and its total is the unrounded
  unit price times the quantity, rounded to two decimals.
\<close>

theorem C10_non_positive_quantity_is_priced:
  assumes "missing_keys p = []"
    and "dict_get p ''Stock_Status'' JNull \<noteq> JStr ''Out of Stock''"
    and "num_val (dict_get p ''Quantity_in_Stock'' JNull) = Some s" and "of_int q \<le> s"
    and "py_float B (dict_get p ''Min_Selling_Price_Rs'' (JInt 0)) = Inr b"
    and "dict_get p ''Reorder_Level'' (JInt 1) = JNull
           \<or> num_val (dict_get p ''Reorder_Level'' (JInt 1)) \<noteq> None"
    and "q \<le> 0"
  shows "\<exists>r e'. calculate B m p q = Inr (r, e') \<and> approved r
           \<and> map_of r ''status'' = Some (JStr ''Available'')
           \<and> map_of r ''quantity_requested'' = Some (JInt q)
           \<and> map_of r ''final_single_unit_price'' = Some (JFloat (round2 (final_single_unit_price e')))
           \<and> map_of r ''total_price'' = Some (JFloat (round2 (final_single_unit_price e' * of_int q)))
           \<and> base_price e' = b"
proof -
  define e where "e = \<lparr>product = p, quantity = q, base_price = b, adjustments = [], final_price = b\<rparr>"
  from assms(5) have i: "init B p q = Inr e"
    by (simp add: init_def e_def)
  from missing_keys_Nil [OF assms(1)] have "has_key p ''Quantity_in_Stock''" by simp
  then have st: "dict_get p ''Quantity_in_Stock'' (JInt 0) = dict_get p ''Quantity_in_Stock'' JNull"
    by (rule dict_get_present)
  have "\<exists>e1. apply_inventory_rules B e = Inr e1"
  proof (cases "dict_get p ''Reorder_Level'' (JInt 1) = JNull")
    case True
    then show ?thesis by (simp add: apply_inventory_rules_def e_def Let_def)
  next
    case False
    with assms(6) obtain r where "num_val (dict_get p ''Reorder_Level'' (JInt 1)) = Some r" by auto
    then have r: "num_val (dict_get (product e) ''Reorder_Level'' (JInt 1)) = Some r"
      by (simp add: e_def)
    from assms(3) st have s: "num_val (dict_get (product e) ''Quantity_in_Stock'' (JInt 0)) = Some s"
      by (simp add: e_def)
    show ?thesis
      unfolding apply_inventory_rules_num [OF s r] by simp
  qed
  then obtain e' where ar: "apply_rules B m e = Inr e'"
    by (auto simp: apply_rules_def)
  from apply_rules_fields [OF ar] have f: "quantity e' = q" "base_price e' = b"
    by (simp_all add: e_def)
  have g: "py_gt B (JInt q) (dict_get p ''Quantity_in_Stock'' JNull) = Inr False"
    using assms(3,4) by (cases "dict_get p ''Quantity_in_Stock'' JNull") (auto split: if_splits)
  have "calculate B m p q = Inr (approved_result e', e')"
    using i assms(1,2) g ar by (simp add: calculate_def calculate_price_def e_def Let_def)
  with f show ?thesis
    by (simp add: approved_def approved_result_def Let_def)
qed

theorem C10_non_positive_quantity_is_priced_witness:
  "(\<exists>r e'. calculate B0 6 scenario1 (- 3) = Inr (r, e') \<and> approved r
       \<and> map_of r ''total_price'' = Some (JFloat (round2 (final_single_unit_price e' * of_int (- 3)))))
   \<and> map_of (fst (projr (calculate B0 6 scenario1 (- 3)))) ''total_price'' = Some (JFloat (- (525 / 2)))
   \<and> map_of (fst (projr (calculate B0 6 scenario1 0))) ''total_price'' = Some (JFloat 0)"
proof -
  have "\<exists>r e'. calculate B0 6 scenario1 (- 3) = Inr (r, e') \<and> approved r
           \<and> map_of r ''status'' = Some (JStr ''Available'')
           \<and> map_of r ''quantity_requested'' = Some (JInt (- 3))
           \<and> map_of r ''final_single_unit_price'' = Some (JFloat (round2 (final_single_unit_price e')))
           \<and> map_of r ''total_price'' = Some (JFloat (round2 (final_single_unit_price e' * of_int (- 3))))
           \<and> base_price e' = 100"
    by (rule C10_non_positive_quantity_is_priced [where s = 50])
      (simp_all add: scenario1_def missing_keys_def required_keys_def has_key_def dict_get_def)
  then have "\<exists>r e'. calculate B0 6 scenario1 (- 3) = Inr (r, e') \<and> approved r
       \<and> map_of r ''total_price'' = Some (JFloat (round2 (final_single_unit_price e' * of_int (- 3))))"
    by blast
  moreover have "map_of (fst (projr (calculate B0 6 scenario1 (- 3)))) ''total_price'' = Some (JFloat (- (525 / 2)))"
    by (simp add: engine_defs scenario1_def Let_def round2_values)
  moreover have "map_of (fst (projr (calculate B0 6 scenario1 0))) ''total_price'' = Some (JFloat 0)"
    by (simp add: engine_defs scenario1_def Let_def round2_values)
  ultimately show ?thesis by blast
qed

subsection \<open>The value-based override\<close>

lemma str_contains_absent_char: "c \<notin> set s \<Longrightarrow> \<not> str_contains (c # t) s"
  by (induction s) auto

lemma set_str_nat: "set (str_nat n) \<subseteq> set ''0123456789''"
proof (induction n rule: str_nat.induct)
  case (1 n)
  have d: "digit_char k \<in> set ''0123456789''" if "k < 10" for k
    using that unfolding digit_char_def by (intro nth_mem) simp
  show ?case
  proof (cases "n < 10")
    case True
    with d [of n] show ?thesis by (subst str_nat.simps) simp
  next
    case False
    with 1 d [of "n mod 10"] show ?thesis by (subst str_nat.simps) auto
  qed
qed

lemma str_int_no_H: "CHR ''H'' \<notin> set (str_int i)"
proof -
  have "CHR ''H'' \<notin> set ''0123456789''" by simp
  with set_str_nat have "CHR ''H'' \<notin> set (str_nat n)" for n by blast
  then show ?thesis by (simp add: str_int_def)
qed

lemma bulk_reason_no_H: "CHR ''H'' \<notin> set (bulk_reason q)"
  by (simp add: bulk_reason_def str_int_no_H)

lemma demographic_reason_no_H: "CHR ''H'' \<notin> set demographic_reason"
  by (simp add: demographic_reason_def)

lemma seasonal_reason_no_H:
  assumes "c \<in> set (map JStr SEASONAL_SUMMER_CATEGORIES)"
  shows "CHR ''H'' \<notin> set (seasonal_reason B c)"
proof -
  from assms consider "c = JStr ''Toys & Games''" | "c = JStr ''Sports & Outdoors''"
    | "c = JStr ''Fashion & Apparel''"
    by (auto simp: SEASONAL_SUMMER_CATEGORIES_def)
  then show ?thesis
    by cases (simp_all add: seasonal_reason_def)
qed

lemma starts_with_contains: "starts_with sub s \<Longrightarrow> str_contains sub s"
  by (cases s) (auto elim: starts_with.elims)

lemma inventory_reason_contains:
  "str_contains ''High Inventory Discount'' (inventory_reason B stock)"
  by (rule starts_with_contains) (simp add: inventory_reason_def)

lemma reason_heads:
  "hd (inventory_reason B stock) = CHR ''H''"
  "hd override_reason = CHR ''P''"
  "hd (bulk_reason q) = CHR ''B''"
  "hd (seasonal_reason B c) = CHR ''I''"
  "hd demographic_reason = CHR ''T''"
  by (simp_all add: inventory_reason_def override_reason_def bulk_reason_def seasonal_reason_def
      demographic_reason_def)

lemma order_adjustments_props:
  assumes "a \<in> set (order_adjustments q)"
  shows "CHR ''H'' \<notin> set (adj_reason a) \<and> pn_val (adj_value a) \<noteq> 0 \<and> hd (adj_reason a) = CHR ''B''"
  using assms by (simp add: order_adjustments_def bulk_reason_no_H reason_heads split: if_splits)

lemma seasonal_adjustments_props:
  assumes "a \<in> set (seasonal_adjustments B month p)"
  shows "CHR ''H'' \<notin> set (adj_reason a) \<and> pn_val (adj_value a) \<noteq> 0 \<and> hd (adj_reason a) = CHR ''I''"
proof -
  from assms have c: "dict_get p ''Category'' (JStr []) \<in> set (map JStr SEASONAL_SUMMER_CATEGORIES)"
    and a: "a = \<lparr>adj_type = ''markup'', adj_value = PFloat 10,
             adj_reason = seasonal_reason B (dict_get p ''Category'' (JStr []))\<rparr>"
    unfolding seasonal_adjustments_def by (simp_all split: if_splits)
  from seasonal_reason_no_H [OF c] a show ?thesis
    by (simp add: reason_heads)
qed

lemma demographic_adjustments_props:
  assumes "a \<in> set (demographic_adjustments B p)"
  shows "CHR ''H'' \<notin> set (adj_reason a) \<and> pn_val (adj_value a) \<noteq> 0 \<and> hd (adj_reason a) = CHR ''T''"
  using assms
  by (simp add: demographic_adjustments_def demographic_reason_no_H reason_heads split: if_splits)

lemma later_adjustments_props:
  assumes "a \<in> set (later_adjustments B month p q)"
  shows "CHR ''H'' \<notin> set (adj_reason a)" and "pn_val (adj_value a) \<noteq> 0"
    and "hd (adj_reason a) \<in> {CHR ''B'', CHR ''I'', CHR ''T''}"
  using assms order_adjustments_props [of a q] seasonal_adjustments_props [of a B month p]
    demographic_adjustments_props [of a B p]
  unfolding later_adjustments_def by auto

lemma override_adj_later:
  "map override_adj (later_adjustments B month p q) = later_adjustments B month p q"
  by (rule map_idI) (simp add: override_adj_def later_adjustments_props(1) str_contains_absent_char)

lemma apply_order_value_rules_adjustments:
  "adjustments (apply_order_value_rules e) = adjustments e @ order_adjustments (quantity e)"
  by (simp add: apply_order_value_rules_def append_adj_def order_adjustments_def)

lemma apply_factor_based_rules_adjustments:
  "adjustments (apply_factor_based_rules B month e)
     = (if ''Purchasing Power'' \<in> set (factors_of B (product e)) then map override_adj else id)
         (adjustments e @ seasonal_adjustments B month (product e) @ demographic_adjustments B (product e))"
  unfolding apply_factor_based_rules_def seasonal_adjustments_def demographic_adjustments_def
    Let_def append_adj_def
  by (simp del: set_simps set_map)

lemma total_adjustment_percentage_neutral:
  "total_adjustment_percentage
     (\<lparr>adj_type = ''discount'', adj_value = PInt 0, adj_reason = x\<rparr> # rest)
   = total_adjustment_percentage rest"
  by (simp add: total_adjustment_percentage_def total_step_def)

lemma reasoning_breakdown_neutral:
  assumes "\<forall>a \<in> set rest. pn_val (adj_value a) \<noteq> 0"
  shows "reasoning_breakdown (\<lparr>adj_type = ''discount'', adj_value = PInt 0, adj_reason = x\<rparr> # rest)
     = map adj_reason rest"
  using assms by (simp add: reasoning_breakdown_def)

lemma overridden_trail:
  assumes "calculate B m p q = Inr (r, e')" and "approved r"
    and "''Purchasing Power'' \<in> set (factors_of B p)"
    and "num_val (dict_get p ''Reorder_Level'' (JInt 1)) = Some rl"
    and "num_val (dict_get p ''Quantity_in_Stock'' (JInt 0)) = Some s"
    and "0 < rl" and "2 * rl < s"
  shows "adjustments e' =
           \<lparr>adj_type = ''discount'', adj_value = PInt 0, adj_reason = override_reason\<rparr>
             # later_adjustments B m p q"
    and "r = approved_result e'"
proof -
  from assms(1,2) obtain e where e: "init B p q = Inr e" "apply_rules B m e = Inr e'"
    "r = approved_result e'"
    by (rule calculate_approved)
  from init_fields [OF e(1)] have f: "product e = p" "quantity e = q" "adjustments e = []"
    by simp_all
  from assms(4,5) f have rl: "num_val (dict_get (product e) ''Reorder_Level'' (JInt 1)) = Some rl"
    and s: "num_val (dict_get (product e) ''Quantity_in_Stock'' (JInt 0)) = Some s"
    by simp_all
  define inv where "inv = \<lparr>adj_type = ''discount'', adj_value = PFloat (inventory_discount s rl),
     adj_reason = inventory_reason B (dict_get (product e) ''Quantity_in_Stock'' (JInt 0))\<rparr>"
  from assms(6,7) have i: "apply_inventory_rules B e = Inr (append_adj inv e)"
    unfolding apply_inventory_rules_num [OF s rl] inv_def by simp
  with e(2) have e': "e' = apply_factor_based_rules B m (apply_order_value_rules (append_adj inv e))"
    by (simp add: apply_rules_def)
  have o: "override_adj inv
     = \<lparr>adj_type = ''discount'', adj_value = PInt 0, adj_reason = override_reason\<rparr>"
    by (simp add: override_adj_def inv_def inventory_reason_contains)
  have "adjustments e' = map override_adj (inv # later_adjustments B m p q)"
    using assms(3) f
    by (simp add: e' apply_factor_based_rules_adjustments apply_order_value_rules_adjustments
        apply_order_value_rules_fields append_adj_def later_adjustments_def)
  then show "adjustments e' =
           \<lparr>adj_type = ''discount'', adj_value = PInt 0, adj_reason = override_reason\<rparr>
             # later_adjustments B m p q"
    by (simp add: o override_adj_later)
  from e(3) show "r = approved_result e'" .
qed

text \<open>
  C4. For an approved calculation whose factors include Purchasing Power and whose stock
  is above twice a positive reorder level, the inventory discount stays in the trail, at
  its place, with value 0 and the override's reason; it adds nothing to the net
  adjustment; neither its original reason nor the override's reason is in the reasoning
  list, which holds the reasons of the other adjustments.
\<close>

theorem C4_override_neutralizes_inventory_discount:
  assumes "calculate B m p q = Inr (r, e')" and "approved r"
    and "''Purchasing Power'' \<in> set (factors_of B p)"
    and "num_val (dict_get p ''Reorder_Level'' (JInt 1)) = Some rl"
    and "num_val (dict_get p ''Quantity_in_Stock'' (JInt 0)) = Some s"
    and "0 < rl" and "2 * rl < s"
  shows "\<exists>rest. adjustments e' =
             \<lparr>adj_type = ''discount'', adj_value = PInt 0, adj_reason = override_reason\<rparr> # rest
     \<and> total_adjustment_percentage (adjustments e') = total_adjustment_percentage rest
     \<and> map_of r ''net_price_adjustment_percentage'' = Some (pn_round2 (total_adjustment_percentage rest))
     \<and> map_of r ''reasoning_breakdown'' = Some (JArr (map JStr (map adj_reason rest)))
     \<and> inventory_reason B (dict_get p ''Quantity_in_Stock'' (JInt 0)) \<notin> set (map adj_reason rest)
     \<and> override_reason \<notin> set (map adj_reason rest)
     \<and> (\<forall>a \<in> set rest. \<not> str_contains ''High Inventory Discount'' (adj_reason a))"
proof -
  let ?rest = "later_adjustments B m p q"
  note t = overridden_trail [OF assms]
  have nz: "\<forall>a \<in> set ?rest. pn_val (adj_value a) \<noteq> 0"
    using later_adjustments_props(2) by blast
  have tot: "total_adjustment_percentage (adjustments e') = total_adjustment_percentage ?rest"
    by (simp add: t(1) total_adjustment_percentage_neutral)
  have net: "map_of r ''net_price_adjustment_percentage''
      = Some (pn_round2 (total_adjustment_percentage ?rest))"
    by (simp add: t(2) approved_result_def Let_def tot)
  have rb: "map_of r ''reasoning_breakdown'' = Some (JArr (map JStr (map adj_reason ?rest)))"
    by (simp add: t(2) approved_result_def Let_def t(1) reasoning_breakdown_neutral [OF nz])
  have inv: "inventory_reason B (dict_get p ''Quantity_in_Stock'' (JInt 0)) \<notin> set (map adj_reason ?rest)"
  proof
    assume "inventory_reason B (dict_get p ''Quantity_in_Stock'' (JInt 0)) \<in> set (map adj_reason ?rest)"
    then obtain a where a: "a \<in> set ?rest"
      "adj_reason a = inventory_reason B (dict_get p ''Quantity_in_Stock'' (JInt 0))"
      by auto
    from later_adjustments_props(3) [OF a(1)] a(2) show False
      by (simp add: reason_heads)
  qed
  have ov: "override_reason \<notin> set (map adj_reason ?rest)"
  proof
    assume "override_reason \<in> set (map adj_reason ?rest)"
    then obtain a where a: "a \<in> set ?rest" "adj_reason a = override_reason"
      by auto
    from later_adjustments_props(3) [OF a(1)] a(2) show False
      by (simp add: reason_heads)
  qed
  have nc: "\<forall>a \<in> set ?rest. \<not> str_contains ''High Inventory Discount'' (adj_reason a)"
    using later_adjustments_props(1) str_contains_absent_char by blast
  from t(1) tot net rb inv ov nc show ?thesis by blast
qed

lemma round2_more:
  "round2 (- (9 / 2)) = - (9 / 2)"
  "round2 (191 / 2) = 191 / 2"
  "round2 2865 = 2865"
  by code_simp+

lemma purchasing_power_factors:
  "factors_of B purchasing_power = [''Purchasing Power'', ''Age'', []]"
  by (simp add: factors_of_def purchasing_power_def dict_get_def strip_def is_space_def)

lemma purchasing_power_run:
  "calculate B0 6 purchasing_power 30 =
     Inr (fst (projr (calculate B0 6 purchasing_power 30)),
          snd (projr (calculate B0 6 purchasing_power 30)))
   \<and> approved (fst (projr (calculate B0 6 purchasing_power 30)))
   \<and> map_of (fst (projr (calculate B0 6 purchasing_power 30))) ''net_price_adjustment_percentage''
       = Some (JFloat (- (9 / 2)))
   \<and> map_of (fst (projr (calculate B0 6 purchasing_power 30))) ''reasoning_breakdown''
       = Some (JArr [JStr (bulk_reason 30), JStr demographic_reason])
   \<and> length (adjustments (snd (projr (calculate B0 6 purchasing_power 30)))) = 3"
  by (simp add: engine_defs purchasing_power_def Let_def approved_def is_space_def round2_more
      override_adj_def inventory_reason_contains str_contains_absent_char bulk_reason_no_H
      demographic_reason_no_H)

theorem C4_override_neutralizes_inventory_discount_witness:
  "(\<exists>rest. adjustments (snd (projr (calculate B0 6 purchasing_power 30))) =
             \<lparr>adj_type = ''discount'', adj_value = PInt 0, adj_reason = override_reason\<rparr> # rest
     \<and> map_of (fst (projr (calculate B0 6 purchasing_power 30))) ''reasoning_breakdown''
          = Some (JArr (map JStr (map adj_reason rest)))
     \<and> override_reason \<notin> set (map adj_reason rest))
   \<and> map_of (fst (projr (calculate B0 6 purchasing_power 30))) ''net_price_adjustment_percentage''
       = Some (JFloat (- (9 / 2)))
   \<and> length (adjustments (snd (projr (calculate B0 6 purchasing_power 30)))) = 3"
proof -
  have run: "calculate B0 6 purchasing_power 30 =
     Inr (fst (projr (calculate B0 6 purchasing_power 30)),
          snd (projr (calculate B0 6 purchasing_power 30)))"
    and ok: "approved (fst (projr (calculate B0 6 purchasing_power 30)))"
    using purchasing_power_run by blast+
  have pp: "''Purchasing Power'' \<in> set (factors_of B0 purchasing_power)"
    by (simp add: purchasing_power_factors)
  have rl: "num_val (dict_get purchasing_power ''Reorder_Level'' (JInt 1)) = Some 10"
    and s: "num_val (dict_get purchasing_power ''Quantity_in_Stock'' (JInt 0)) = Some 50"
    by (simp_all add: purchasing_power_def dict_get_def)
  from C4_override_neutralizes_inventory_discount [OF run ok pp rl s]
  have "\<exists>rest. adjustments (snd (projr (calculate B0 6 purchasing_power 30))) =
             \<lparr>adj_type = ''discount'', adj_value = PInt 0, adj_reason = override_reason\<rparr> # rest
     \<and> map_of (fst (projr (calculate B0 6 purchasing_power 30))) ''reasoning_breakdown''
          = Some (JArr (map JStr (map adj_reason rest)))
     \<and> override_reason \<notin> set (map adj_reason rest)"
    by fastforce
  with purchasing_power_run show ?thesis by blast
qed
subsection \<open>Two calls in a row\<close>














subsection \<open>Risk assessment\<close>

lemma scan_reasons_strings:
  "scan_reasons B d (map JStr rs) flags
     = Inr (flags @ replicate (length (filter (str_contains ''Capped'') rs)) (capped_flag B d))"
  by (induction rs arbitrary: flags) (simp_all add: replicate_app_Cons_same)

lemma filter_empty_iff: "(filter P xs = []) = (\<forall>x \<in> set xs. \<not> P x)"
  by (induction xs) auto

lemma high_risk_flags_typed:
  assumes "num_val (dict_get d ''net_price_adjustment_percentage'' (JInt 0)) = Some n"
    and "dict_get d ''reasoning_breakdown'' (JArr []) = JArr (map JStr rs)"
  shows "\<exists>m. py_abs (dict_get d ''net_price_adjustment_percentage'' (JInt 0)) = Inr m
      \<and> num_val m = Some \<bar>n\<bar>
      \<and> high_risk_flags B d
         = Inr ((if n < - 25 then [discount_flag B d m] else [])
                @ replicate (length (filter (str_contains ''Capped'') rs)) (capped_flag B d))"
proof -
  let ?adj = "dict_get d ''net_price_adjustment_percentage'' (JInt 0)"
  from assms(1) obtain m where m: "py_abs ?adj = Inr m" "num_val m = Some \<bar>n\<bar>"
    by (cases ?adj) (auto split: if_splits)
  from assms(1) have nn: "?adj \<noteq> JNull" by auto
  from assms(1) have lt: "py_lt_float ?adj (- max_allowed_discount) = Inr (n < - 25)"
    by (simp add: py_lt_float_def max_allowed_discount_def)
  have "high_risk_flags B d
         = Inr ((if n < - 25 then [discount_flag B d m] else [])
                @ replicate (length (filter (str_contains ''Capped'') rs)) (capped_flag B d))"
    using nn lt m(1) assms(2)
    by (simp add: high_risk_flags_def Let_def scan_reasons_strings)
  with m show ?thesis by blast
qed

text \<open>
  C5, as the claim states it, fails in its last part. An approved item with a net
  adjustment of 0 and the one reason "Discount Capped at 20%" is High, and the only reason
  returned is the heads-up about the cap: no reason cites a discount magnitude.
\<close>

theorem C5_counterexample:
  "assess B0 (JObj (priced_item 0 [''Discount Capped at 20%'']))
     = Inr (JObj [(''risk_level'', JStr ''High''), (''summary'', JStr ''High risk detected.''),
                  (''reasons'', JArr [JStr (''Heads-up: A discount for '' @ [CHR 0x27] @ ''Widget''
                                             @ [CHR 0x27] @ '' was automatically capped.'')])])
   \<and> map_of (priced_item 0 [''Discount Capped at 20%'']) ''net_price_adjustment_percentage''
       = Some (JFloat 0)
   \<and> \<not> (0 :: rat) < - 25"
  by (simp add: assess_def high_risk_flags_def priced_item_def dict_get_def py_lt_float_def
      max_allowed_discount_def capped_flag_def Let_def)

text \<open>
  C5, amended. For an approved item whose net adjustment is a number \<open>n\<close> and whose
  reasoning is a list of strings, the risk level is High exactly when \<open>n < -25\<close> or some
  reason contains "Capped", and Low otherwise, with the summary that the item passed all
  checks; so -25 is Low and -25.01 is High. The reasons of a High result are: when
  \<open>n < -25\<close>, first the sentence that the net discount for the product is \<open>|n|\<close> per
  cent, which exceeds the maximum of 25.0 per cent; then one heads-up about the cap for
  every reason that contains "Capped". A result that is High through "Capped" alone has
  no reason about the magnitude.
\<close>

theorem C5_risk_level_and_reasons:
  assumes "py_truthy (dict_get d ''approved_for_quote'' (JBool False))"
    and "num_val (dict_get d ''net_price_adjustment_percentage'' (JInt 0)) = Some n"
    and "dict_get d ''reasoning_breakdown'' (JArr []) = JArr (map JStr rs)"
  shows "\<exists>m res. py_abs (dict_get d ''net_price_adjustment_percentage'' (JInt 0)) = Inr m
    \<and> num_val m = Some \<bar>n\<bar>
    \<and> assess B (JObj d) = Inr (JObj res)
    \<and> res =
        (if n < - 25 \<or> (\<exists>x \<in> set rs. str_contains ''Capped'' x)
         then [(''risk_level'', JStr ''High''), (''summary'', JStr ''High risk detected.''),
               (''reasons'', JArr (map JStr
                  ((if n < - 25
                    then [''Risk: Net discount for '' @ [CHR 0x27]
                            @ py_str B (dict_get d ''product_name'' JNull) @ [CHR 0x27]
                            @ '' is '' @ py_str B m @ ''%, which exceeds the maximum of ''
                            @ py_str B (JFloat 25) @ ''%.'']
                    else [])
                   @ replicate (length (filter (str_contains ''Capped'') rs))
                       (''Heads-up: A discount for '' @ [CHR 0x27]
                          @ py_str B (dict_get d ''product_name'' JNull) @ [CHR 0x27]
                          @ '' was automatically capped.''))))]
         else [(''risk_level'', JStr ''Low''),
               (''summary'', JStr (''Item '' @ [CHR 0x27]
                  @ py_str B (dict_get d ''product_name'' JNull) @ [CHR 0x27]
                  @ '' passed all checks.''))])
    \<and> (map_of res ''risk_level'' = Some (JStr ''High'')
         \<longleftrightarrow> n < - 25 \<or> (\<exists>x \<in> set rs. str_contains ''Capped'' x))
    \<and> (map_of res ''risk_level'' = Some (JStr ''Low'')
         \<longleftrightarrow> \<not> (n < - 25 \<or> (\<exists>x \<in> set rs. str_contains ''Capped'' x)))"
proof -
  from high_risk_flags_typed [OF assms(2,3), of B] obtain m
    where m: "py_abs (dict_get d ''net_price_adjustment_percentage'' (JInt 0)) = Inr m"
      "num_val m = Some \<bar>n\<bar>"
      and f: "high_risk_flags B d
         = Inr ((if n < - 25 then [discount_flag B d m] else [])
                @ replicate (length (filter (str_contains ''Capped'') rs)) (capped_flag B d))"
    by blast
  let ?c = "\<exists>x \<in> set rs. str_contains ''Capped'' x"
  have c: "(filter (str_contains ''Capped'') rs = []) = (\<not> ?c)"
    by (simp add: filter_empty_iff)
  have "assess B (JObj d) = Inr (JObj
        (if n < - 25 \<or> ?c
         then [(''risk_level'', JStr ''High''), (''summary'', JStr ''High risk detected.''),
               (''reasons'', JArr (map JStr
                  ((if n < - 25 then [discount_flag B d m] else [])
                   @ replicate (length (filter (str_contains ''Capped'') rs)) (capped_flag B d))))]
         else [(''risk_level'', JStr ''Low''), (''summary'', JStr (passed_summary B d))]))"
  proof (cases "n < - 25")
    case True
    with assms(1) f show ?thesis by (simp add: assess_def)
  next
    case False
    show ?thesis
    proof (cases ?c)
      case True
      with c have "filter (str_contains ''Capped'') rs \<noteq> []" by simp
      with False True assms(1) f show ?thesis by (simp add: assess_def)
    next
      case nc: False
      with c have "filter (str_contains ''Capped'') rs = []" by simp
      with False nc assms(1) f show ?thesis by (simp add: assess_def)
    qed
  qed
  with m show ?thesis
    by (simp add: discount_flag_def capped_flag_def passed_summary_def max_allowed_discount_def)
qed

theorem C5_risk_level_and_reasons_witness:
  "assess B2 (JObj (priced_item (- (2501 / 100)) []))
     = Inr (JObj [(''risk_level'', JStr ''High''), (''summary'', JStr ''High risk detected.''),
                  (''reasons'', JArr [JStr (''Risk: Net discount for '' @ [CHR 0x27] @ ''Widget''
                     @ [CHR 0x27] @ '' is 25.01%, which exceeds the maximum of 25.0%.'')])])
   \<and> assess B2 (JObj (priced_item (- 25) []))
     = Inr (JObj [(''risk_level'', JStr ''Low''),
                  (''summary'', JStr (''Item '' @ [CHR 0x27] @ ''Widget'' @ [CHR 0x27]
                     @ '' passed all checks.''))])
   \<and> assess B2 (JObj (priced_item (- (2501 / 100)) [''Discount Capped at 20%'']))
     = Inr (JObj [(''risk_level'', JStr ''High''), (''summary'', JStr ''High risk detected.''),
                  (''reasons'', JArr [JStr (''Risk: Net discount for '' @ [CHR 0x27] @ ''Widget''
                     @ [CHR 0x27] @ '' is 25.01%, which exceeds the maximum of 25.0%.''),
                   JStr (''Heads-up: A discount for '' @ [CHR 0x27] @ ''Widget''
                     @ [CHR 0x27] @ '' was automatically capped.'')])])"
proof -
  have a: "py_truthy (dict_get (priced_item n rs) ''approved_for_quote'' (JBool False))"
    and b: "num_val (dict_get (priced_item n rs) ''net_price_adjustment_percentage'' (JInt 0)) = Some n"
    and c: "dict_get (priced_item n rs) ''reasoning_breakdown'' (JArr []) = JArr (map JStr rs)"
    and d: "dict_get (priced_item n rs) ''net_price_adjustment_percentage'' (JInt 0) = JFloat n"
    and e: "dict_get (priced_item n rs) ''product_name'' JNull = JStr ''Widget''"
    for n rs
    by (simp_all add: priced_item_def dict_get_def)
  have p: "repr_of B2 (JFloat 25) = ''25.0''" "repr_of B2 (JFloat (2501 / 100)) = ''25.01''"
    by (simp_all add: B2_def sample_repr_def)
  from C5_risk_level_and_reasons [OF a [of "- (2501 / 100)" "[]"] b [of "- (2501 / 100)" "[]"] c [of "- (2501 / 100)" "[]"], where B = B2]
  have h: "assess B2 (JObj (priced_item (- (2501 / 100)) []))
     = Inr (JObj [(''risk_level'', JStr ''High''), (''summary'', JStr ''High risk detected.''),
                  (''reasons'', JArr [JStr (''Risk: Net discount for '' @ [CHR 0x27] @ ''Widget''
                     @ [CHR 0x27] @ '' is 25.01%, which exceeds the maximum of 25.0%.'')])])"
    by (auto simp: d e p)
  from C5_risk_level_and_reasons [OF a [of "- 25" "[]"] b [of "- 25" "[]"] c [of "- 25" "[]"], where B = B2]
  have l: "assess B2 (JObj (priced_item (- 25) []))
     = Inr (JObj [(''risk_level'', JStr ''Low''),
                  (''summary'', JStr (''Item '' @ [CHR 0x27] @ ''Widget'' @ [CHR 0x27]
                     @ '' passed all checks.''))])"
    by (auto simp: d e p)
  from C5_risk_level_and_reasons [OF a [of "- (2501 / 100)" "[''Discount Capped at 20%'']"]
      b [of "- (2501 / 100)" "[''Discount Capped at 20%'']"]
      c [of "- (2501 / 100)" "[''Discount Capped at 20%'']"], where B = B2]
  have k: "assess B2 (JObj (priced_item (- (2501 / 100)) [''Discount Capped at 20%'']))
     = Inr (JObj [(''risk_level'', JStr ''High''), (''summary'', JStr ''High risk detected.''),
                  (''reasons'', JArr [JStr (''Risk: Net discount for '' @ [CHR 0x27] @ ''Widget''
                     @ [CHR 0x27] @ '' is 25.01%, which exceeds the maximum of 25.0%.''),
                   JStr (''Heads-up: A discount for '' @ [CHR 0x27] @ ''Widget''
                     @ [CHR 0x27] @ '' was automatically capped.'')])])"
    by (auto simp: d e p)
  from h l k show ?thesis by blast
qed

subsection \<open>The batch of the calculator tool\<close>

text \<open>
  The loop body reads the entry with \<^verbatim>\<open>item.get\<close> outside the \<^verbatim>\<open>try\<close>, and the
  \<^verbatim>\<open>except\<close> handler reads the product name with \<^verbatim>\<open>product_data.get\<close>: on an entry
  that is no dictionary, and on an entry with a quantity and a truthy product record that
  is no dictionary, \<^verbatim>\<open>AttributeError\<close> leaves the loop. On every other entry the body
  appends one result.
\<close>

lemma process_item_aborts:
  assumes "entry_aborts item"
  shows "process_item B m item = Inl AttributeError"
proof (cases item)
  case (JObj d)
  with assms show ?thesis
    by (cases "dict_get d ''product_json'' JNull")
      (auto simp: entry_aborts_def process_item_def engine_call_def failed_entry_def Let_def
        split: sum.splits)
qed (simp_all add: process_item_def)

lemma process_item_returns:
  assumes "\<not> entry_aborts item"
  shows "\<exists>r. process_item B m item = Inr r"
proof -
  from assms obtain d where d: "item = JObj d"
    by (cases item) (simp_all add: entry_aborts_def)
  let ?pd = "dict_get d ''product_json'' JNull"
  show ?thesis
  proof (cases "\<not> py_truthy ?pd \<or> dict_get d ''quantity'' JNull = JNull")
    case True
    with d show ?thesis by (auto simp: process_item_def Let_def)
  next
    case False
    with assms d obtain p where p: "?pd = JObj p"
      by (cases ?pd) (simp_all add: entry_aborts_def)
    show ?thesis
    proof (cases "engine_call B m ?pd (dict_get d ''quantity'' JNull)")
      case (Inl exc)
      with False d p show ?thesis
        by (auto simp: process_item_def failed_entry_def Let_def)
    next
      case (Inr r)
      with False d show ?thesis by (auto simp: process_item_def Let_def)
    qed
  qed
qed

lemma process_item_skips:
  assumes "\<not> py_truthy (dict_get d ''product_json'' JNull) \<or> dict_get d ''quantity'' JNull = JNull"
  shows "process_item B m (JObj d) = Inr skipped_entry"
  using assms by (auto simp: process_item_def Let_def)

lemma process_item_prices:
  assumes "dict_get d ''product_json'' JNull = JObj p" and "p \<noteq> []"
    and "dict_get d ''quantity'' JNull \<noteq> JNull"
  shows "process_item B m (JObj d)
     = Inr (case py_int B (dict_get d ''quantity'' JNull) of
             Inl exc \<Rightarrow>
               JObj [(''error'', JStr (''Failed to process item ''
                 @ py_str B (dict_get p ''Product_Name'' (JStr ''Unknown''))
                 @ ''. Details: '' @ str_of_exc B exc))]
           | Inr q \<Rightarrow>
              (case calculate B m p q of
                 Inl exc \<Rightarrow>
                   JObj [(''error'', JStr (''Failed to process item ''
                     @ py_str B (dict_get p ''Product_Name'' (JStr ''Unknown''))
                     @ ''. Details: '' @ str_of_exc B exc))]
               | Inr (res, e) \<Rightarrow> JObj res))"
proof -
  have unf: "process_item B m (JObj d)
      = (case engine_call B m (JObj p) (dict_get d ''quantity'' JNull) of
           Inr pricing_result \<Rightarrow> Inr pricing_result
         | Inl exc \<Rightarrow> failed_entry B (JObj p) exc)"
    using assms by (simp add: process_item_def Let_def)
  show ?thesis
  proof (cases "py_int B (dict_get d ''quantity'' JNull)")
    case (Inl exc)
    then show ?thesis
      unfolding unf by (simp add: engine_call_def failed_entry_def)
  next
    case q: (Inr q)
    show ?thesis
    proof (cases "calculate B m p q")
      case (Inl exc)
      with q show ?thesis
        unfolding unf by (simp add: engine_call_def failed_entry_def)
    next
      case (Inr x)
      obtain res e where x: "x = (res, e)" by (cases x)
      with q Inr show ?thesis
        unfolding unf by (simp add: engine_call_def)
    qed
  qed
qed

lemma process_item_result:
  assumes "\<not> entry_aborts item"
  shows "\<exists>d. item = JObj d
     \<and> (\<not> py_truthy (dict_get d ''product_json'' JNull)
            \<or> dict_get d ''quantity'' JNull = JNull
          \<longrightarrow> projr (process_item B m item)
              = JObj [(''error'', JStr (''Skipping item due to missing '' @ [CHR 0x27]
                       @ ''product_json'' @ [CHR 0x27] @ '' or '' @ [CHR 0x27] @ ''quantity''
                       @ [CHR 0x27] @ ''.''))])
       \<and> (py_truthy (dict_get d ''product_json'' JNull)
            \<and> dict_get d ''quantity'' JNull \<noteq> JNull
          \<longrightarrow> (\<exists>p. dict_get d ''product_json'' JNull = JObj p
               \<and> projr (process_item B m item)
                 = (case py_int B (dict_get d ''quantity'' JNull) of
                      Inl exc \<Rightarrow>
                        JObj [(''error'', JStr (''Failed to process item ''
                          @ py_str B (dict_get p ''Product_Name'' (JStr ''Unknown''))
                          @ ''. Details: '' @ str_of_exc B exc))]
                    | Inr q \<Rightarrow>
                       (case calculate B m p q of
                          Inl exc \<Rightarrow>
                            JObj [(''error'', JStr (''Failed to process item ''
                              @ py_str B (dict_get p ''Product_Name'' (JStr ''Unknown''))
                              @ ''. Details: '' @ str_of_exc B exc))]
                        | Inr (res, e) \<Rightarrow> JObj res))))"
proof -
  from assms obtain d where d: "item = JObj d"
    by (cases item) (simp_all add: entry_aborts_def)
  let ?pd = "dict_get d ''product_json'' JNull"
  let ?q = "dict_get d ''quantity'' JNull"
  have skip: "projr (process_item B m item)
       = JObj [(''error'', JStr (''Skipping item due to missing '' @ [CHR 0x27]
                @ ''product_json'' @ [CHR 0x27] @ '' or '' @ [CHR 0x27] @ ''quantity''
                @ [CHR 0x27] @ ''.''))]"
    if "\<not> py_truthy ?pd \<or> ?q = JNull"
    unfolding d process_item_skips [OF that] by (simp add: skipped_entry_def)
  have price: "\<exists>p. ?pd = JObj p
        \<and> projr (process_item B m item)
          = (case py_int B (dict_get d ''quantity'' JNull) of
               Inl exc \<Rightarrow>
                 JObj [(''error'', JStr (''Failed to process item ''
                   @ py_str B (dict_get p ''Product_Name'' (JStr ''Unknown''))
                   @ ''. Details: '' @ str_of_exc B exc))]
             | Inr q \<Rightarrow>
                (case calculate B m p q of
                   Inl exc \<Rightarrow>
                     JObj [(''error'', JStr (''Failed to process item ''
                       @ py_str B (dict_get p ''Product_Name'' (JStr ''Unknown''))
                       @ ''. Details: '' @ str_of_exc B exc))]
                 | Inr (res, e) \<Rightarrow> JObj res))"
    if t: "py_truthy ?pd \<and> ?q \<noteq> JNull"
  proof -
    from t assms d obtain p where p: "?pd = JObj p"
      by (cases ?pd) (simp_all add: entry_aborts_def)
    with t have "p \<noteq> []" by simp
    from t have "?q \<noteq> JNull" by simp
    from process_item_prices [OF p \<open>p \<noteq> []\<close> this, of B m]
    have eq: "projr (process_item B m item)
          = (case py_int B (dict_get d ''quantity'' JNull) of
               Inl exc \<Rightarrow>
                 JObj [(''error'', JStr (''Failed to process item ''
                   @ py_str B (dict_get p ''Product_Name'' (JStr ''Unknown''))
                   @ ''. Details: '' @ str_of_exc B exc))]
             | Inr q \<Rightarrow>
                (case calculate B m p q of
                   Inl exc \<Rightarrow>
                     JObj [(''error'', JStr (''Failed to process item ''
                       @ py_str B (dict_get p ''Product_Name'' (JStr ''Unknown''))
                       @ ''. Details: '' @ str_of_exc B exc))]
                 | Inr (res, e) \<Rightarrow> JObj res))"
      unfolding d by (rule arg_cong [where f = projr, THEN trans]) (rule sum.sel)
    show ?thesis by (rule exI [of _ p], rule conjI, rule p, rule eq)
  qed
  show ?thesis
    by (rule exI [of _ d], intro conjI impI, rule d, erule skip, erule price)
qed

lemma run_items_aborts:
  assumes "\<exists>item \<in> set items. entry_aborts item"
  shows "run_items B m items acc = Inl AttributeError"
  using assms
proof (induction items arbitrary: acc)
  case Nil
  then show ?case by simp
next
  case (Cons item items)
  show ?case
  proof (cases "entry_aborts item")
    case True
    from process_item_aborts [OF this, of B m] show ?thesis by simp
  next
    case False
    from process_item_returns [OF this, of B m] obtain r where r: "process_item B m item = Inr r"
      by blast
    from False Cons.prems have "\<exists>item \<in> set items. entry_aborts item" by simp
    from Cons.IH [OF this, of "acc @ [r]"] r show ?thesis by simp
  qed
qed

lemma run_items_returns:
  assumes "\<forall>item \<in> set items. \<not> entry_aborts item"
  shows "run_items B m items acc = Inr (acc @ map (\<lambda>item. projr (process_item B m item)) items)"
  using assms
proof (induction items arbitrary: acc)
  case Nil
  then show ?case by simp
next
  case (Cons item items)
  from Cons.prems have "\<not> entry_aborts item" by simp
  from process_item_returns [OF this, of B m] obtain r where r: "process_item B m item = Inr r"
    by blast
  from Cons.prems have "\<forall>item \<in> set items. \<not> entry_aborts item" by simp
  from Cons.IH [OF this, of "acc @ [r]"] r show ?case by simp
qed

lemma sample_records:
  "scenario1 \<noteq> []" "null_price \<noteq> []"
  "dict_get null_price ''Product_Name'' (JStr ''Unknown'') = JStr ''Widget''"
  "dict_get scenario1 ''Product_Name'' (JStr ''Unknown'') = JStr ''Widget''"
  "calculate B m null_price q = Inl TypeError"
  by (simp_all add: scenario1_def null_price_def dict_get_def calculate_def init_def)

text \<open>
  C8. The tool does not isolate every entry of a JSON array. If some entry is no
  dictionary, or has a quantity and a truthy \<^verbatim>\<open>product_json\<close> that is no dictionary (a
  string, say), \<^verbatim>\<open>_run\<close> raises \<^verbatim>\<open>AttributeError\<close> and returns nothing, whatever the
  other entries are. Otherwise it returns the serialised array of one result per entry,
  in the order of the entries, each made from its entry alone: the "Skipping item" object
  when the product record is missing or falsy or the quantity is missing or null, the
  dictionary \<^verbatim>\<open>calculate_price\<close> returns when the engine returns, and the "Failed to
  process item" object when \<^verbatim>\<open>int(quantity)\<close> or the engine raises.
\<close>

theorem C8_batch_aborts:
  assumes "json_loads B line_items_json = Inr (JArr items)"
  shows "if \<exists>item \<in> set items. entry_aborts item
    then pricing_run B m line_items_json = Inl AttributeError
    else \<exists>results. pricing_run B m line_items_json = Inr (json_dumps B (JArr results))
      \<and> length results = length items
      \<and> (\<forall>i < length items. \<exists>d. items ! i = JObj d
          \<and> (\<not> py_truthy (dict_get d ''product_json'' JNull)
               \<or> dict_get d ''quantity'' JNull = JNull
             \<longrightarrow> results ! i
                 = JObj [(''error'', JStr (''Skipping item due to missing '' @ [CHR 0x27]
                          @ ''product_json'' @ [CHR 0x27] @ '' or '' @ [CHR 0x27] @ ''quantity''
                          @ [CHR 0x27] @ ''.''))])
          \<and> (py_truthy (dict_get d ''product_json'' JNull)
               \<and> dict_get d ''quantity'' JNull \<noteq> JNull
             \<longrightarrow> (\<exists>p. dict_get d ''product_json'' JNull = JObj p
                  \<and> results ! i
                    = (case py_int B (dict_get d ''quantity'' JNull) of
                         Inl exc \<Rightarrow>
                           JObj [(''error'', JStr (''Failed to process item ''
                             @ py_str B (dict_get p ''Product_Name'' (JStr ''Unknown''))
                             @ ''. Details: '' @ str_of_exc B exc))]
                       | Inr q \<Rightarrow>
                          (case calculate B m p q of
                             Inl exc \<Rightarrow>
                               JObj [(''error'', JStr (''Failed to process item ''
                                 @ py_str B (dict_get p ''Product_Name'' (JStr ''Unknown''))
                                 @ ''. Details: '' @ str_of_exc B exc))]
                           | Inr (res, e) \<Rightarrow> JObj res)))))"
proof (cases "\<exists>item \<in> set items. entry_aborts item")
  case True
  from run_items_aborts [OF True, of B m "[]"] assms
  have "pricing_run B m line_items_json = Inl AttributeError"
    by (simp add: pricing_run_def)
  with True show ?thesis by (simp only: if_True)
next
  case False
  then have ok: "\<forall>item \<in> set items. \<not> entry_aborts item" by simp
  let ?results = "map (\<lambda>item. projr (process_item B m item)) items"
  from run_items_returns [OF ok, of B m "[]"] assms
  have run: "pricing_run B m line_items_json = Inr (json_dumps B (JArr ?results))"
    by (simp add: pricing_run_def)
  have len: "length ?results = length items" by simp
  have each: "\<exists>d. items ! i = JObj d
          \<and> (\<not> py_truthy (dict_get d ''product_json'' JNull)
               \<or> dict_get d ''quantity'' JNull = JNull
             \<longrightarrow> ?results ! i
                 = JObj [(''error'', JStr (''Skipping item due to missing '' @ [CHR 0x27]
                          @ ''product_json'' @ [CHR 0x27] @ '' or '' @ [CHR 0x27] @ ''quantity''
                          @ [CHR 0x27] @ ''.''))])
          \<and> (py_truthy (dict_get d ''product_json'' JNull)
               \<and> dict_get d ''quantity'' JNull \<noteq> JNull
             \<longrightarrow> (\<exists>p. dict_get d ''product_json'' JNull = JObj p
                  \<and> ?results ! i
                    = (case py_int B (dict_get d ''quantity'' JNull) of
                         Inl exc \<Rightarrow>
                           JObj [(''error'', JStr (''Failed to process item ''
                             @ py_str B (dict_get p ''Product_Name'' (JStr ''Unknown''))
                             @ ''. Details: '' @ str_of_exc B exc))]
                       | Inr q \<Rightarrow>
                          (case calculate B m p q of
                             Inl exc \<Rightarrow>
                               JObj [(''error'', JStr (''Failed to process item ''
                                 @ py_str B (dict_get p ''Product_Name'' (JStr ''Unknown''))
                                 @ ''. Details: '' @ str_of_exc B exc))]
                           | Inr (res, e) \<Rightarrow> JObj res))))"
    if "i < length items" for i
  proof -
    from that ok have "\<not> entry_aborts (items ! i)" by simp
    from process_item_result [OF this, of B m] show ?thesis
      unfolding nth_map [OF that] .
  qed
  from each have all: "\<forall>i < length items. \<exists>d. items ! i = JObj d
          \<and> (\<not> py_truthy (dict_get d ''product_json'' JNull)
               \<or> dict_get d ''quantity'' JNull = JNull
             \<longrightarrow> ?results ! i
                 = JObj [(''error'', JStr (''Skipping item due to missing '' @ [CHR 0x27]
                          @ ''product_json'' @ [CHR 0x27] @ '' or '' @ [CHR 0x27] @ ''quantity''
                          @ [CHR 0x27] @ ''.''))])
          \<and> (py_truthy (dict_get d ''product_json'' JNull)
               \<and> dict_get d ''quantity'' JNull \<noteq> JNull
             \<longrightarrow> (\<exists>p. dict_get d ''product_json'' JNull = JObj p
                  \<and> ?results ! i
                    = (case py_int B (dict_get d ''quantity'' JNull) of
                         Inl exc \<Rightarrow>
                           JObj [(''error'', JStr (''Failed to process item ''
                             @ py_str B (dict_get p ''Product_Name'' (JStr ''Unknown''))
                             @ ''. Details: '' @ str_of_exc B exc))]
                       | Inr q \<Rightarrow>
                          (case calculate B m p q of
                             Inl exc \<Rightarrow>
                               JObj [(''error'', JStr (''Failed to process item ''
                                 @ py_str B (dict_get p ''Product_Name'' (JStr ''Unknown''))
                                 @ ''. Details: '' @ str_of_exc B exc))]
                           | Inr (res, e) \<Rightarrow> JObj res))))"
    by (intro allI impI) (erule each)
  show ?thesis
    unfolding if_not_P [OF False]
    by (rule exI [of _ ?results], intro conjI, rule run, rule len, rule all)
qed

theorem C8_batch_aborts_witness:
  "pricing_run B3 6 ''[...]'' = Inl AttributeError
   \<and> process_item B3 6 (failing_batch ! 0)
       = Inr (JObj [(''product_name'', JStr ''Widget''),
                    (''quantity_requested'', JInt 30),
                    (''approved_for_quote'', JBool True),
                    (''base_single_unit_price'', JFloat 100),
                    (''final_single_unit_price'', JFloat 80),
                    (''total_price'', JFloat 2400),
                    (''net_price_adjustment_percentage'', JFloat (- 20)),
                    (''reasoning_breakdown'',
                     JArr [JStr (inventory_reason B3 (JInt 50)), JStr (bulk_reason 30)]),
                    (''competitors'',
                     JObj [(''SmartBuy'', JNull), (''ClicKart'', JNull),
                           (''ShopiSky'', JNull), (''Neesho'', JNull)]),
                    (''status'', JStr ''Available'')])
   \<and> (\<exists>results. pricing_run B1 6 ''[...]'' = Inr (json_dumps B1 (JArr results))
        \<and> length results = 5
        \<and> results ! 0
            = JObj [(''product_name'', JStr ''Widget''),
                    (''quantity_requested'', JInt 30),
                    (''approved_for_quote'', JBool True),
                    (''base_single_unit_price'', JFloat 100),
                    (''final_single_unit_price'', JFloat 80),
                    (''total_price'', JFloat 2400),
                    (''net_price_adjustment_percentage'', JFloat (- 20)),
                    (''reasoning_breakdown'',
                     JArr [JStr (inventory_reason B1 (JInt 50)), JStr (bulk_reason 30)]),
                    (''competitors'',
                     JObj [(''SmartBuy'', JNull), (''ClicKart'', JNull),
                           (''ShopiSky'', JNull), (''Neesho'', JNull)]),
                    (''status'', JStr ''Available'')]
        \<and> results ! 1 = skipped_entry
        \<and> results ! 2 = skipped_entry
        \<and> results ! 3
            = JObj [(''error'', JStr ''Failed to process item Widget. Details: exception'')]
        \<and> results ! 4
            = JObj [(''error'', JStr ''Failed to process item Widget. Details: exception'')])"
proof -
  have l3: "json_loads B3 ''[...]'' = Inr (JArr failing_batch)"
    by (simp add: B3_def)
  have a3: "\<exists>item \<in> set failing_batch. entry_aborts item"
    by (simp add: failing_batch_def entry_aborts_def dict_get_def)
  from C8_batch_aborts [OF l3, of 6] a3
  have abort: "pricing_run B3 6 ''[...]'' = Inl AttributeError"
    by (simp only: if_True)
  have alone: "process_item B3 6 (failing_batch ! 0)
       = Inr (JObj [(''product_name'', JStr ''Widget''),
                    (''quantity_requested'', JInt 30),
                    (''approved_for_quote'', JBool True),
                    (''base_single_unit_price'', JFloat 100),
                    (''final_single_unit_price'', JFloat 80),
                    (''total_price'', JFloat 2400),
                    (''net_price_adjustment_percentage'', JFloat (- 20)),
                    (''reasoning_breakdown'',
                     JArr [JStr (inventory_reason B3 (JInt 50)), JStr (bulk_reason 30)]),
                    (''competitors'',
                     JObj [(''SmartBuy'', JNull), (''ClicKart'', JNull),
                           (''ShopiSky'', JNull), (''Neesho'', JNull)]),
                    (''status'', JStr ''Available'')])"
    by (simp add: failing_batch_def process_item_def engine_call_def dict_get_def Let_def
        sample_records scenario1_run)
  have l1: "json_loads B1 ''[...]'' = Inr (JArr sample_batch)"
    by (simp add: B1_def)
  have a1: "\<not> (\<exists>item \<in> set sample_batch. entry_aborts item)"
    by (simp add: sample_batch_def entry_aborts_def dict_get_def)
  have n: "length sample_batch = 5"
    by (simp add: sample_batch_def)
  have s: "sample_batch ! 0 = JObj [(''product_json'', JObj scenario1), (''quantity'', JInt 30)]"
    "sample_batch ! 1 = JObj [(''product_json'', JObj scenario1)]"
    "sample_batch ! 2 = JObj [(''quantity'', JInt 5)]"
    "sample_batch ! 3 = JObj [(''product_json'', JObj scenario1), (''quantity'', JStr ''many'')]"
    "sample_batch ! 4 = JObj [(''product_json'', JObj null_price), (''quantity'', JInt 2)]"
    by (simp_all add: sample_batch_def)
  have b: "int_of_str B1 ''many'' = None" "str_of_exc B1 exc = ''exception''" for exc
    by (simp_all add: B1_def B0_def)
  from C8_batch_aborts [OF l1, of 6, unfolded if_not_P [OF a1]] show ?thesis
  proof (elim exE conjE, goal_cases)
    case (1 results)
    from 1(2) n have len: "length results = 5" by simp
    from 1(3) [rule_format, of 0, unfolded s n] have r0: "results ! 0
            = JObj [(''product_name'', JStr ''Widget''),
                    (''quantity_requested'', JInt 30),
                    (''approved_for_quote'', JBool True),
                    (''base_single_unit_price'', JFloat 100),
                    (''final_single_unit_price'', JFloat 80),
                    (''total_price'', JFloat 2400),
                    (''net_price_adjustment_percentage'', JFloat (- 20)),
                    (''reasoning_breakdown'',
                     JArr [JStr (inventory_reason B1 (JInt 50)), JStr (bulk_reason 30)]),
                    (''competitors'',
                     JObj [(''SmartBuy'', JNull), (''ClicKart'', JNull),
                           (''ShopiSky'', JNull), (''Neesho'', JNull)]),
                    (''status'', JStr ''Available'')]"
      by (auto simp: dict_get_def sample_records scenario1_run)
    from 1(3) [rule_format, of 1, unfolded s n] have r1: "results ! 1 = skipped_entry"
      by (auto simp: dict_get_def skipped_entry_def)
    from 1(3) [rule_format, of 2, unfolded s n] have r2: "results ! 2 = skipped_entry"
      by (auto simp: dict_get_def skipped_entry_def)
    from 1(3) [rule_format, of 3, unfolded s n] have r3: "results ! 3
            = JObj [(''error'', JStr ''Failed to process item Widget. Details: exception'')]"
      by (auto simp: dict_get_def [of "[(''product_json'', _), _]"] sample_records b)
    from 1(3) [rule_format, of 4, unfolded s n] have r4: "results ! 4
            = JObj [(''error'', JStr ''Failed to process item Widget. Details: exception'')]"
      by (auto simp: dict_get_def [of "[(''product_json'', _), _]"] sample_records b)
    from abort alone 1(1) len r0 r1 r2 r3 r4 show ?case by blast
  qed
qed

end
